theory Spec2Isabelle
  imports Main
begin

section \<open>Quizify: the quiz session of \<^verbatim>\<open>main.py\<close>\<close>

text \<open>
  The program is one Streamlit script. Every click re-executes the script from the top;
  \<^verbatim>\<open>st.session_state\<close> is the only thing that survives from one execution to the
  next. The embedding follows the three places where the bank, the position and the saved
  answers are read and written: the handler of the generate button with
  \<^verbatim>\<open>generate_question_bank\<close>, \<^verbatim>\<open>display_mcq\<close> and \<^verbatim>\<open>submit_test\<close>. Each of them is a
  function of the click that started the run and of the session state, and returns how it
  ended, what it put on the page and the session state it left.

  Three things the script calls are libraries outside the repository: the generative
  model, \<^verbatim>\<open>json.loads\<close> and the constructor of pandas' \<^verbatim>\<open>DataFrame\<close>. The first two are
  parameters of the embedding; the third is written out for the shapes of data the
  prompt asks the model for and is a parameter on the remaining ones.
\<close>

subsection \<open>Values\<close>

text \<open>
  What \<^verbatim>\<open>json.loads\<close> returns. An object is the Python dict it became: an association
  list in insertion order whose keys are distinct. Numbers are integers; nothing below
  looks inside a number, only at its not being a string or a sequence.
  A Python string is a list of characters, \<^typ>\<open>char\<close> being the code points below 256.
\<close>

datatype json =
    JNull
  | JBool bool
  | JNum int
  | JStr string
  | JArr "json list"
  | JObj "(string \<times> json) list"

text \<open>
  The exceptions that can leave the modelled code. \<open>ModelCallError\<close> stands for whatever
  \<^verbatim>\<open>model.generate_content(prompt)\<close> or \<^verbatim>\<open>response.text\<close> raises (no network, bad key,
  blocked reply); \<open>DuplicateWidgetID\<close> is what Streamlit raises on the second widget
  of one run that carries a key already used.
\<close>

datatype error =
    ModelCallError
  | ValueError
  | KeyError string
  | IndexError
  | TypeError
  | AttributeError
  | DuplicateWidgetID

subsection \<open>Python's \<^verbatim>\<open>str.strip\<close> and \<^verbatim>\<open>str.startswith\<close>\<close>

definition py_isspace :: "char \<Rightarrow> bool" where
  "py_isspace c \<longleftrightarrow>
     (of_char c :: nat) \<in> {9, 10, 11, 12, 13, 28, 29, 30, 31, 32, 133, 160}"

definition strip_chars :: "(char \<Rightarrow> bool) \<Rightarrow> string \<Rightarrow> string" where
  "strip_chars p s = rev (dropWhile p (rev (dropWhile p s)))"

definition strip :: "string \<Rightarrow> string" where
  "strip s = strip_chars py_isspace s"

definition strip_of :: "string \<Rightarrow> string \<Rightarrow> string" where
  \<comment> \<open>\<^verbatim>\<open>s.strip(chars)\<close>: \<^verbatim>\<open>chars\<close> is a set of characters, not a prefix\<close>
  "strip_of chars s = strip_chars (\<lambda>c. c \<in> set chars) s"

definition startswith :: "string \<Rightarrow> string \<Rightarrow> bool" where
  "startswith s p \<longleftrightarrow> take (length p) s = p"

subsection \<open>The data frame\<close>

text \<open>
  A frame as the script observes it: the column labels and the rows. pandas names the
  columns of an array of objects by the objects' keys and numbers the columns of other
  data. The index of every frame is the default one, \<open>0, 1, \<dots>, n - 1\<close>, which is what
  pandas gives the frame of a JSON array. A row lists the cells it has a value for; the
  cell of a column the row has no value for is pandas' missing value \<^verbatim>\<open>NaN\<close>, here \<open>None\<close>.
\<close>

datatype label = Pos nat | Name string

type_synonym series = "(label \<times> json) list"

record dataframe =
  columns :: "label list"
  rows :: "series list"

definition len :: "dataframe \<Rightarrow> int" where
  "len df = int (length (rows df))"

definition empty :: "dataframe \<Rightarrow> bool" where
  \<comment> \<open>\<^verbatim>\<open>df.empty\<close>: one of the two axes has length 0\<close>
  "empty df \<longleftrightarrow> rows df = [] \<or> columns df = []"

definition iloc :: "dataframe \<Rightarrow> int \<Rightarrow> error + series" where
  \<comment> \<open>\<^verbatim>\<open>df.iloc[i]\<close>: a negative position counts from the end\<close>
  "iloc df i =
     (let n = len df; j = (if i < 0 then n + i else i)
      in if 0 \<le> j \<and> j < n then Inr (rows df ! nat j) else Inl IndexError)"

definition getitem :: "dataframe \<Rightarrow> series \<Rightarrow> string \<Rightarrow> error + json option" where
  \<comment> \<open>\<^verbatim>\<open>row[key]\<close> on a row of \<open>df\<close>\<close>
  "getitem df row key =
     (if Name key \<in> set (columns df) then Inr (map_of row (Name key))
      else Inl (KeyError key))"

definition get_default :: "dataframe \<Rightarrow> series \<Rightarrow> string \<Rightarrow> json \<Rightarrow> json option" where
  \<comment> \<open>\<^verbatim>\<open>row.get(key, default)\<close>\<close>
  "get_default df row key d =
     (if Name key \<in> set (columns df) then map_of row (Name key) else Some d)"

definition iterrows :: "dataframe \<Rightarrow> (int \<times> series) list" where
  "iterrows df = zip (map int [0..<length (rows df)]) (rows df)"

fun is_object :: "json \<Rightarrow> bool" where
  "is_object (JObj kvs) = True"
| "is_object _ = False"

fun items :: "json \<Rightarrow> (string \<times> json) list" where
  "items (JObj kvs) = kvs"
| "items _ = []"

definition from_records :: "(string \<times> json) list list \<Rightarrow> dataframe" where
  \<comment> \<open>the frame of a list of dicts: a column for every key that occurs, a row for every dict\<close>
  "from_records ds =
     \<lparr>columns = map Name (remdups (concat (map (map fst) ds))),
      rows = map (map (\<lambda>(k, v). (Name k, v))) ds\<rparr>"

fun DataFrame :: "(json \<Rightarrow> error + dataframe) \<Rightarrow> json \<Rightarrow> error + dataframe" where
  \<comment> \<open>\<^verbatim>\<open>pd.DataFrame(data)\<close>; \<open>other\<close> is pandas on an object and on an array that holds
      something else than objects\<close>
  "DataFrame other JNull = Inr \<lparr>columns = [], rows = []\<rparr>"
| "DataFrame other (JBool b) = Inl ValueError"
| "DataFrame other (JNum n) = Inl ValueError"
| "DataFrame other (JStr s) = Inl ValueError"
| "DataFrame other (JArr xs) =
     (if xs = [] then Inr \<lparr>columns = [], rows = []\<rparr>
      else if list_all is_object xs then Inr (from_records (map items xs))
      else other (JArr xs))"
| "DataFrame other (JObj kvs) = other (JObj kvs)"

subsection \<open>Session state, clicks and what a run leaves behind\<close>

record session_state =
  mcq_df :: "dataframe option"
  current_index :: int
  saved_answers :: "int \<rightharpoonup> string"
  selected_level :: "string option"

text \<open>
  The buttons of the page. \<^verbatim>\<open>st.button\<close> returns \<^verbatim>\<open>True\<close> in the run that a click on that
  very button started, and \<^verbatim>\<open>False\<close> otherwise. A button is identified by its key where it
  has one: \<open>OptionButton i opt\<close> is the key \<^verbatim>\<open>option_{i}_{opt}\<close>, \<open>ResetButton i\<close> is
  \<^verbatim>\<open>reset_{i}\<close>, \<open>SaveButton i\<close> is \<^verbatim>\<open>save_{i}\<close>, \<open>LevelButton\<close> the key of a difficulty
  button; the other buttons have no key and are identified by their label.
\<close>

datatype widget =
    LevelButton string
  | GenerateButton
  | OptionButton int string
  | ResetButton int
  | SaveButton int
  | PreviousButton
  | NextButton
  | SubmitButton

datatype event = NoClick | Click widget

text \<open>
  What a run puts on the page. \<open>Question i q\<close> stands for the header of lines 86 to 97
  (the subheader \<^verbatim>\<open>Q{i + 1}: \<dots>\<close> and the code block cut out of the question text);
  \<open>Success c n\<close> is the score line \<^verbatim>\<open>Your Score: c / n\<close>; the three lines of an entry of
  the report carry the values their text is formatted from.
\<close>

datatype element =
    Warning string
  | Failure string
  | Write string
  | Question int string
  | Button widget string
  | Success nat int
  | Heading string
  | ReportQuestion int "json option"
  | ReportYourAnswer string
  | ReportCorrectAnswer "json option"
  | Separator

text \<open>
  How a piece of the script ends: it runs to its end, it raises, or it calls \<^verbatim>\<open>st.rerun()\<close>,
  which stops the run and starts a new one without a click. The session state at that
  moment is the one the next run starts from, also after an exception.
\<close>

datatype outcome = Done | Raised error | Rerun

record result =
  outcome :: outcome
  page :: "element list"
  state :: session_state

subsection \<open>The generator\<close>

text \<open>
  The world outside the script. \<open>generate_content topic level\<close> is the text the model
  answers to the prompt built from \<open>topic\<close> and \<open>level\<close>, or the exception of the call;
  \<open>json_loads\<close> is \<^verbatim>\<open>json.loads\<close>, \<open>None\<close> where it raises \<^verbatim>\<open>JSONDecodeError\<close>;
  \<open>other_frames\<close> is the frame constructor on the data \<^const>\<open>DataFrame\<close> leaves open.
\<close>

record world =
  generate_content :: "string \<Rightarrow> string \<Rightarrow> error + string"
  json_loads :: "string \<Rightarrow> json option"
  other_frames :: "json \<Rightarrow> error + dataframe"

definition unfence :: "string \<Rightarrow> string" where
  \<comment> \<open>lines 59 to 62\<close>
  "unfence text =
     (let response_text = strip text
      in if startswith response_text ''```json'' \<or> startswith response_text ''```''
         then strip (strip_of ''```'' (strip_of ''```json'' response_text))
         else response_text)"

definition generate_question_bank ::
    "world \<Rightarrow> string \<Rightarrow> string \<Rightarrow> error + dataframe option" where
  "generate_question_bank w topic level =
     (case generate_content w topic level of
        Inl e \<Rightarrow> Inl e
      | Inr text \<Rightarrow>
          (case json_loads w (unfence text) of
             None \<Rightarrow> Inr None
           | Some mcq_list \<Rightarrow>
               (case DataFrame (other_frames w) mcq_list of
                  Inl e \<Rightarrow> Inl e
                | Inr df \<Rightarrow> Inr (Some df))))"

definition truthy :: "string option \<Rightarrow> bool" where
  "truthy v = (case v of None \<Rightarrow> False | Some s \<Rightarrow> s \<noteq> [])"

definition generate_click :: "world \<Rightarrow> string \<Rightarrow> session_state \<Rightarrow> result" where
  \<comment> \<open>lines 185 to 196, the body of \<^verbatim>\<open>if st.button("Generate MCQs")\<close>\<close>
  "generate_click w topic st =
     (if topic \<noteq> [] \<and> truthy (selected_level st) then
        (let pg = [Write ''Generating MCQs... Please wait.'']
         in case generate_question_bank w topic (the (selected_level st)) of
              Inl e \<Rightarrow> \<lparr>outcome = Raised e, page = pg, state = st\<rparr>
            | Inr None \<Rightarrow>
                \<lparr>outcome = Done,
                 page = pg @ [Failure ''Error generating MCQs. Please try again.''],
                 state = st\<rparr>
            | Inr (Some df) \<Rightarrow>
                if \<not> empty df then
                  \<lparr>outcome = Rerun, page = pg,
                   state = st\<lparr>mcq_df := Some df, current_index := 0,
                              saved_answers := Map.empty\<rparr>\<rparr>
                else
                  \<lparr>outcome = Done,
                   page = pg @ [Failure ''Error generating MCQs. Please try again.''],
                   state = st\<rparr>)
      else
        \<lparr>outcome = Done,
         page = [Warning ''Please enter a topic and select a difficulty level.''],
         state = st\<rparr>)"

subsection \<open>The presenter\<close>

definition placeholder :: string where
  "placeholder = ''Option not available''"

fun iterate :: "json option \<Rightarrow> error + json list" where
  \<comment> \<open>\<^verbatim>\<open>for opt in options\<close>: a list gives its entries, a string its characters, a dict
      its keys; nothing else can be iterated\<close>
  "iterate (Some (JArr xs)) = Inr xs"
| "iterate (Some (JStr s)) = Inr (map (\<lambda>c. JStr [c]) s)"
| "iterate (Some (JObj kvs)) = Inr (map (\<lambda>(k, v). JStr k) kvs)"
| "iterate _ = Inl TypeError"

fun valid_text :: "json list \<Rightarrow> error + string list" where
  \<comment> \<open>line 101; only a string has a \<^verbatim>\<open>strip\<close> method\<close>
  "valid_text [] = Inr []"
| "valid_text (JStr opt # rest) =
     (case valid_text rest of
        Inl e \<Rightarrow> Inl e
      | Inr opts \<Rightarrow> Inr ((if strip opt \<noteq> [] then opt else placeholder) # opts))"
| "valid_text (_ # rest) = Inl AttributeError"

fun option_buttons ::
    "event \<Rightarrow> int \<Rightarrow> string list \<Rightarrow> string list \<Rightarrow> element list \<Rightarrow> session_state \<Rightarrow> result" where
  \<comment> \<open>lines 104 to 106; \<open>seen\<close> are the options whose key this run has used\<close>
  "option_buttons ev index [] seen pg st = \<lparr>outcome = Done, page = pg, state = st\<rparr>"
| "option_buttons ev index (option # rest) seen pg st =
     (if option \<in> set seen then \<lparr>outcome = Raised DuplicateWidgetID, page = pg, state = st\<rparr>
      else option_buttons ev index rest (option # seen)
             (pg @ [Button (OptionButton index option) option])
             (if ev = Click (OptionButton index option)
              then st\<lparr>saved_answers := (saved_answers st)(index \<mapsto> option)\<rparr>
              else st))"

definition reset_save :: "event \<Rightarrow> int \<Rightarrow> element list \<Rightarrow> session_state \<Rightarrow> result" where
  \<comment> \<open>lines 109 to 116\<close>
  "reset_save ev index pg st =
     \<lparr>outcome = Done,
      page = pg @ [Button (ResetButton index) ''Reset Answer'',
                   Button (SaveButton index) ''Save Answer''],
      state = (if ev = Click (ResetButton index) \<and> index \<in> dom (saved_answers st)
               then st\<lparr>saved_answers := (saved_answers st)(index := None)\<rparr>
               else st)\<rparr>"

definition navigation :: "event \<Rightarrow> dataframe \<Rightarrow> element list \<Rightarrow> session_state \<Rightarrow> result" where
  \<comment> \<open>lines 119 to 131\<close>
  "navigation ev df pg st =
     (let pg1 = (if current_index st > 0 then pg @ [Button PreviousButton ''Previous''] else pg)
      in if current_index st > 0 \<and> ev = Click PreviousButton then
           \<lparr>outcome = Rerun, page = pg1, state = st\<lparr>current_index := current_index st - 1\<rparr>\<rparr>
         else
           (let pg2 = (if current_index st < len df - 1
                       then pg1 @ [Button NextButton ''Next''] else pg1)
            in if current_index st < len df - 1 \<and> ev = Click NextButton then
                 \<lparr>outcome = Rerun, page = pg2,
                  state = st\<lparr>current_index := current_index st + 1\<rparr>\<rparr>
               else \<lparr>outcome = Done, page = pg2 @ [Separator], state = st\<rparr>))"

definition header :: "int \<Rightarrow> json option \<Rightarrow> error + element list" where
  \<comment> \<open>lines 86 to 97; \<^verbatim>\<open>re.search\<close> raises on a text that is not a string\<close>
  "header index question_text =
     (case question_text of
        Some (JStr q) \<Rightarrow> Inr [Question index q]
      | _ \<Rightarrow> Inl TypeError)"

definition question_part ::
    "dataframe \<Rightarrow> int \<Rightarrow> error \<times> element list + element list \<times> string list" where
  \<comment> \<open>lines 80 to 101: the header and the option texts, or the exception and the page so far\<close>
  "question_part df index =
     (case iloc df index of
        Inl e \<Rightarrow> Inl (e, [])
      | Inr row \<Rightarrow>
     (case getitem df row ''question'' of
        Inl e \<Rightarrow> Inl (e, [])
      | Inr question_text \<Rightarrow>
     (case getitem df row ''language'' of
        Inl e \<Rightarrow> Inl (e, [])
      | Inr language \<Rightarrow>
     (let options = get_default df row ''options'' (JArr []) in
      case header index question_text of
        Inl e \<Rightarrow> Inl (e, [])
      | Inr pg \<Rightarrow>
     (case iterate options of
        Inl e \<Rightarrow> Inl (e, pg)
      | Inr opts \<Rightarrow>
     (case valid_text opts of
        Inl e \<Rightarrow> Inl (e, pg)
      | Inr options \<Rightarrow> Inr (pg, options)))))))"

definition display_mcq :: "event \<Rightarrow> session_state \<Rightarrow> result" where
  "display_mcq ev st =
     (let index = current_index st in
      case mcq_df st of
        None \<Rightarrow>
          \<lparr>outcome = Done,
           page = [Warning ''No questions available. Please generate MCQs first.''],
           state = st\<rparr>
      | Some df \<Rightarrow>
          if empty df then
            \<lparr>outcome = Done,
             page = [Warning ''No questions available. Please generate MCQs first.''],
             state = st\<rparr>
          else
            (case question_part df index of
               Inl (e, pg) \<Rightarrow> \<lparr>outcome = Raised e, page = pg, state = st\<rparr>
             | Inr (pg, options) \<Rightarrow>
                 (let r = option_buttons ev index options [] pg st in
                  if outcome r \<noteq> Done then r
                  else let r' = reset_save ev index (page r) (state r)
                       in navigation ev df (page r') (state r'))))"

subsection \<open>The scorer\<close>

fun correct_count :: "dataframe \<Rightarrow> (int \<rightharpoonup> string) \<Rightarrow> (int \<times> series) list \<Rightarrow> error + nat" where
  \<comment> \<open>lines 143 to 145; \<^verbatim>\<open>row["answer"]\<close> is read only where \<^verbatim>\<open>i in saved_answers\<close>\<close>
  "correct_count df saved [] = Inr 0"
| "correct_count df saved ((i, row) # rest) =
     (case saved i of
        None \<Rightarrow> correct_count df saved rest
      | Some given \<Rightarrow>
          (case getitem df row ''answer'' of
             Inl e \<Rightarrow> Inl e
           | Inr answer \<Rightarrow>
               (case correct_count df saved rest of
                  Inl e \<Rightarrow> Inl e
                | Inr n \<Rightarrow> Inr (if Some (JStr given) = answer then n + 1 else n))))"

fun incorrect_answers ::
    "dataframe \<Rightarrow> (int \<rightharpoonup> string) \<Rightarrow> (int \<times> series) list \<Rightarrow> element list \<Rightarrow> session_state \<Rightarrow> result" where
  \<comment> \<open>lines 156 to 161\<close>
  "incorrect_answers df saved [] pg st = \<lparr>outcome = Done, page = pg, state = st\<rparr>"
| "incorrect_answers df saved ((i, row) # rest) pg st =
     (case saved i of
        None \<Rightarrow> incorrect_answers df saved rest pg st
      | Some given \<Rightarrow>
          (case getitem df row ''answer'' of
             Inl e \<Rightarrow> \<lparr>outcome = Raised e, page = pg, state = st\<rparr>
           | Inr answer \<Rightarrow>
               if Some (JStr given) \<noteq> answer then
                 (case getitem df row ''question'' of
                    Inl e \<Rightarrow> \<lparr>outcome = Raised e, page = pg, state = st\<rparr>
                  | Inr question \<Rightarrow>
                      incorrect_answers df saved rest
                        (pg @ [ReportQuestion (i + 1) question, ReportYourAnswer given,
                               ReportCorrectAnswer answer, Separator]) st)
               else incorrect_answers df saved rest pg st))"

definition submit_test :: "session_state \<Rightarrow> result" where
  "submit_test st =
     (let saved = saved_answers st in
      case mcq_df st of
        None \<Rightarrow>
          \<lparr>outcome = Done,
           page = [Warning ''No MCQs available. Please generate MCQs first.''],
           state = st\<rparr>
      | Some df \<Rightarrow>
          if empty df then
            \<lparr>outcome = Done,
             page = [Warning ''No MCQs available. Please generate MCQs first.''],
             state = st\<rparr>
          else
            (case correct_count df saved (iterrows df) of
               Inl e \<Rightarrow> \<lparr>outcome = Raised e, page = [], state = st\<rparr>
             | Inr score \<Rightarrow>
                 incorrect_answers df saved (iterrows df)
                   [Success score (len df), Heading ''Incorrect Answers'']
                   (st\<lparr>mcq_df := None, current_index := 0, saved_answers := Map.empty\<rparr>)))"

subsection \<open>What the specification says of the page and the score\<close>

fun shown :: "string list \<Rightarrow> string list \<Rightarrow> string list" where
  \<comment> \<open>the options that get their button: those before the first repeated one\<close>
  "shown [] seen = []"
| "shown (option # rest) seen =
     (if option \<in> set seen then [] else option # shown rest (option # seen))"

definition chosen :: "event \<Rightarrow> int \<Rightarrow> string list \<Rightarrow> string option" where
  \<comment> \<open>the option whose button, among those of question \<open>i\<close>, the click was on\<close>
  "chosen ev i opts =
     (case ev of
        Click (OptionButton j opt) \<Rightarrow> if j = i \<and> opt \<in> set opts then Some opt else None
      | _ \<Rightarrow> None)"

definition option_button :: "int \<Rightarrow> string \<Rightarrow> element" where
  "option_button i opt = Button (OptionButton i opt) opt"

definition buttons_of :: "session_state \<Rightarrow> string list" where
  \<comment> \<open>the texts of the option buttons that \<^const>\<open>display_mcq\<close> puts on the page\<close>
  "buttons_of st =
     (case mcq_df st of
        None \<Rightarrow> []
      | Some df \<Rightarrow>
          if empty df then []
          else (case question_part df (current_index st) of
                  Inl (e, pg) \<Rightarrow> []
                | Inr (pg, options) \<Rightarrow> shown options []))"

definition complete :: "session_state \<Rightarrow> bool" where
  \<comment> \<open>a question is on display and its page is built down to the navigation buttons\<close>
  "complete st \<longleftrightarrow>
     (case mcq_df st of
        None \<Rightarrow> False
      | Some df \<Rightarrow>
          \<not> empty df \<and>
          (case question_part df (current_index st) of
             Inl (e, pg) \<Rightarrow> False
           | Inr (pg, options) \<Rightarrow> shown options [] = options))"

definition answer_of :: "dataframe \<Rightarrow> nat \<Rightarrow> json option" where
  "answer_of df i = map_of (rows df ! i) (Name ''answer'')"

definition question_of :: "dataframe \<Rightarrow> nat \<Rightarrow> json option" where
  "question_of df i = map_of (rows df ! i) (Name ''question'')"

definition counted_correct :: "dataframe \<Rightarrow> (int \<rightharpoonup> string) \<Rightarrow> nat \<Rightarrow> bool" where
  \<comment> \<open>an answer is saved for \<open>i\<close> and is the very string that is the correct answer\<close>
  "counted_correct df saved i \<longleftrightarrow>
     (case saved (int i) of None \<Rightarrow> False | Some given \<Rightarrow> answer_of df i = Some (JStr given))"

definition listed_incorrect :: "dataframe \<Rightarrow> (int \<rightharpoonup> string) \<Rightarrow> nat \<Rightarrow> bool" where
  \<comment> \<open>an answer is saved for \<open>i\<close> and is not the correct answer\<close>
  "listed_incorrect df saved i \<longleftrightarrow>
     (case saved (int i) of None \<Rightarrow> False | Some given \<Rightarrow> answer_of df i \<noteq> Some (JStr given))"

definition report_entry :: "dataframe \<Rightarrow> (int \<rightharpoonup> string) \<Rightarrow> nat \<Rightarrow> element list" where
  "report_entry df saved i =
     [ReportQuestion (int i + 1) (question_of df i), ReportYourAnswer (the (saved (int i))),
      ReportCorrectAnswer (answer_of df i), Separator]"

definition cleared :: "session_state \<Rightarrow> session_state" where
  "cleared st = st\<lparr>mcq_df := None, current_index := 0, saved_answers := Map.empty\<rparr>"


definition in_range :: "session_state \<Rightarrow> bool" where
  \<comment> \<open>a bank that is loaded has a question, and \<open>currentIndex\<close> is one of its positions\<close>
  "in_range st \<longleftrightarrow>
     (case mcq_df st of
        None \<Rightarrow> True
      | Some df \<Rightarrow> \<not> empty df \<and> 0 \<le> current_index st \<and> current_index st \<le> len df - 1)"

subsection \<open>Sample sessions\<close>

definition sample_mcqs :: "json list" where
  \<comment> \<open>the two questions the prompt shows the model, and a third with a blank option\<close>
  "sample_mcqs =
     [JObj [(''question'', JStr ''What is 2 + 2?''),
            (''options'', JArr [JStr ''1'', JStr ''2'', JStr ''4'', JStr ''8'']),
            (''answer'', JStr ''4''),
            (''language'', JBool False)],
      JObj [(''question'', JStr ''What does the following Python code output?''),
            (''options'', JArr [JStr ''Syntax Error'', JStr ''[1, 2, 3]'', JStr ''[3, 2, 1]'',
                               JStr ''None'']),
            (''answer'', JStr ''[3, 2, 1]''),
            (''language'', JStr ''Python'')],
      JObj [(''question'', JStr ''Which string has no characters?''),
            (''options'', JArr [JStr [], JStr ''a'', JStr ''ab'', JStr ''abc'']),
            (''answer'', JStr []),
            (''language'', JBool False)]]"

definition sample_df :: dataframe where
  "sample_df = from_records (map items sample_mcqs)"

definition fresh :: session_state where
  \<comment> \<open>lines 15 to 22, with a difficulty chosen\<close>
  "fresh = \<lparr>mcq_df = None, current_index = 0, saved_answers = Map.empty,
            selected_level = Some ''Beginner''\<rparr>"

definition loaded :: "int \<Rightarrow> session_state" where
  "loaded i = fresh\<lparr>mcq_df := Some sample_df, current_index := i\<rparr>"

definition answered :: session_state where
  \<comment> \<open>the first question answered rightly, the second wrongly, the third not at all\<close>
  "answered = (loaded 1)\<lparr>saved_answers := [0 \<mapsto> ''4'', 1 \<mapsto> ''None'']\<rparr>"

definition numeric_df :: dataframe where
  \<comment> \<open>a bank whose options are JSON numbers, not strings\<close>
  "numeric_df = from_records
     [[(''question'', JStr ''What is 2 + 2?''),
       (''options'', JArr [JNum 1, JNum 2, JNum 4, JNum 8]),
       (''answer'', JNum 4),
       (''language'', JBool False)]]"

definition numeric :: session_state where
  "numeric = fresh\<lparr>mcq_df := Some numeric_df\<rparr>"

definition short_reply :: string where
  \<comment> \<open>a reply with one question, whose answer is none of its two options\<close>
  \<open>short_reply =
     ''[{"question": "What is 2 + 2?", "options": ["1", "2"], "answer": "4", "language": false}]''\<close>

definition short_mcqs :: "json list" where
  \<comment> \<open>what \<^verbatim>\<open>json.loads\<close> makes of \<^const>\<open>short_reply\<close>\<close>
  "short_mcqs =
     [JObj [(''question'', JStr ''What is 2 + 2?''),
            (''options'', JArr [JStr ''1'', JStr ''2'']),
            (''answer'', JStr ''4''),
            (''language'', JBool False)]]"

definition fenced_reply :: string where
  \<comment> \<open>\<^const>\<open>short_reply\<close> as the model wraps it, between code fences\<close>
  "fenced_reply = ''```json'' @ [CHR 0x0A] @ short_reply @ [CHR 0x0A] @ ''```''"

definition terse :: world where
  \<comment> \<open>the model answers \<^const>\<open>fenced_reply\<close>; \<^verbatim>\<open>json.loads\<close> is given on the one text it is asked to read\<close>
  "terse =
     \<lparr>generate_content =
        (\<lambda>topic level. Inr fenced_reply),
      json_loads = map_of [(short_reply, JArr short_mcqs)],
      other_frames = (\<lambda>data. Inl ValueError)\<rparr>"

definition offline :: world where
  \<comment> \<open>the call of the model raises\<close>
  "offline =
     \<lparr>generate_content = (\<lambda>topic level. Inl ModelCallError),
      json_loads = (\<lambda>text. None),
      other_frames = (\<lambda>data. Inl ValueError)\<rparr>"

definition garbled :: world where
  \<comment> \<open>the model answers a sentence, which is not JSON\<close>
  "garbled =
     \<lparr>generate_content = (\<lambda>topic level. Inr ''Here are your questions:''),
      json_loads = (\<lambda>text. None),
      other_frames = (\<lambda>data. Inl ValueError)\<rparr>"




definition mixed_mcqs :: "json list" where
  \<comment> \<open>three questions, the second with numbers for options\<close>
  "mixed_mcqs =
     [JObj [(''question'', JStr ''What is 2 + 2?''),
            (''options'', JArr [JStr ''1'', JStr ''2'', JStr ''4'', JStr ''8'']),
            (''answer'', JStr ''4''),
            (''language'', JBool False)],
      JObj [(''question'', JStr ''What is 3 + 3?''),
            (''options'', JArr [JNum 3, JNum 6, JNum 9, JNum 12]),
            (''answer'', JNum 6),
            (''language'', JBool False)],
      JObj [(''question'', JStr ''What is 4 + 4?''),
            (''options'', JArr [JStr ''4'', JStr ''8'', JStr ''12'', JStr ''16'']),
            (''answer'', JStr ''8''),
            (''language'', JBool False)]]"

definition mixed_df :: dataframe where
  "mixed_df = from_records (map items mixed_mcqs)"

definition mixed :: "int \<Rightarrow> session_state" where
  "mixed i = fresh\<lparr>mcq_df := Some mixed_df, current_index := i\<rparr>"

section \<open>Properties\<close>

subsection \<open>The option buttons\<close>

lemma shown_not_seen: "x \<in> set (shown opts seen) \<Longrightarrow> x \<notin> set seen"
proof (induction opts arbitrary: seen)
  case Nil
  then show ?case by simp
next
  case (Cons a opts)
  show ?case
  proof (cases "a \<in> set seen")
    case True
    with Cons.prems show ?thesis by simp
  next
    case False
    with Cons.prems have "x = a \<or> x \<in> set (shown opts (a # seen))" by simp
    then show ?thesis
    proof
      assume "x = a"
      with False show ?thesis by simp
    next
      assume "x \<in> set (shown opts (a # seen))"
      then have "x \<notin> set (a # seen)" by (rule Cons.IH)
      then show ?thesis by simp
    qed
  qed
qed

lemma option_buttons_page:
  "page (option_buttons ev i opts seen pg st) = pg @ map (option_button i) (shown opts seen)"
  by (induction opts arbitrary: seen pg st) (simp_all add: option_button_def)

lemma option_buttons_outcome:
  "outcome (option_buttons ev i opts seen pg st) =
     (if shown opts seen = opts then Done else Raised DuplicateWidgetID)"
  by (induction opts arbitrary: seen pg st) simp_all

lemma chosen_Cons:
  "chosen ev i (opt # opts) =
     (if ev = Click (OptionButton i opt) then Some opt else chosen ev i opts)"
  by (auto simp: chosen_def split: event.splits widget.splits)

lemma chosen_notin: "opt \<notin> set opts \<Longrightarrow> chosen (Click (OptionButton i opt)) j opts = None"
  by (simp add: chosen_def)

lemma option_buttons_state:
  "state (option_buttons ev i opts seen pg st) =
     (case chosen ev i (shown opts seen) of
        None \<Rightarrow> st
      | Some opt \<Rightarrow> st\<lparr>saved_answers := (saved_answers st)(i \<mapsto> opt)\<rparr>)"
proof (induction opts arbitrary: seen pg st)
  case Nil
  show ?case by (simp add: chosen_def split: event.splits widget.splits)
next
  case (Cons opt opts)
  show ?case
  proof (cases "opt \<in> set seen")
    case True
    then show ?thesis by (simp add: chosen_def split: event.splits widget.splits)
  next
    case False
    let ?st' = "if ev = Click (OptionButton i opt)
                then st\<lparr>saved_answers := (saved_answers st)(i \<mapsto> opt)\<rparr> else st"
    have notin: "opt \<notin> set (shown opts (opt # seen))"
      using shown_not_seen [of opt opts "opt # seen"] by auto
    have step: "state (option_buttons ev i (opt # opts) seen pg st) =
        (case chosen ev i (shown opts (opt # seen)) of
           None \<Rightarrow> ?st'
         | Some opt' \<Rightarrow> ?st'\<lparr>saved_answers := (saved_answers ?st')(i \<mapsto> opt')\<rparr>)"
      using False by (simp only: option_buttons.simps if_False Cons.IH)
    show ?thesis
    proof (cases "ev = Click (OptionButton i opt)")
      case True
      then have "chosen ev i (shown opts (opt # seen)) = None"
        using notin by (simp add: chosen_notin)
      with True False show ?thesis
        unfolding step by (simp add: chosen_Cons)
    next
      case ne: False
      with False show ?thesis
        unfolding step by (simp add: chosen_Cons)
    qed
  qed
qed

lemma display_mcq_ready:
  assumes "mcq_df st = Some df" "\<not> empty df"
    and "question_part df (current_index st) = Inr (pg, opts)"
  shows "display_mcq ev st =
     (let i = current_index st; pg1 = pg @ map (option_button i) (shown opts []);
          st1 = (case chosen ev i (shown opts []) of
                   None \<Rightarrow> st
                 | Some opt \<Rightarrow> st\<lparr>saved_answers := (saved_answers st)(i \<mapsto> opt)\<rparr>)
      in if shown opts [] \<noteq> opts
         then \<lparr>outcome = Raised DuplicateWidgetID, page = pg1, state = st1\<rparr>
         else navigation ev df (page (reset_save ev i pg1 st1)) (state (reset_save ev i pg1 st1)))"
  using assms
  apply (simp add: display_mcq_def Let_def option_buttons_outcome option_buttons_page option_buttons_state)
  done

lemma display_mcq_failed:
  assumes "mcq_df st = Some df" "\<not> empty df"
    and "question_part df (current_index st) = Inl (e, pg)"
  shows "display_mcq ev st = \<lparr>outcome = Raised e, page = pg, state = st\<rparr>"
  using assms by (simp add: display_mcq_def)

lemma question_part_header:
  "question_part df i = Inr (pg, opts) \<Longrightarrow> \<exists>q. pg = [Question i q]"
  by (auto simp: question_part_def header_def Let_def
           split: sum.splits option.splits json.splits)

lemma question_part_failed_page:
  "question_part df i = Inl (e, pg) \<Longrightarrow> pg = [] \<or> (\<exists>q. pg = [Question i q])"
  by (auto simp: question_part_def header_def Let_def
           split: sum.splits option.splits json.splits)

lemma navigation_state:
  "state (navigation ev df pg st) =
     (if current_index st > 0 \<and> ev = Click PreviousButton
      then st\<lparr>current_index := current_index st - 1\<rparr>
      else if current_index st < len df - 1 \<and> ev = Click NextButton
      then st\<lparr>current_index := current_index st + 1\<rparr>
      else st)"
  by (simp add: navigation_def Let_def)

lemma reset_save_state:
  "state (reset_save ev i pg st) =
     (if ev = Click (ResetButton i) then st\<lparr>saved_answers := (saved_answers st)(i := None)\<rparr>
      else st)"
  by (auto simp: reset_save_def domIff fun_upd_idem)

lemma display_mcq_absent:
  "mcq_df st = None \<or> (\<exists>df. mcq_df st = Some df \<and> empty df) \<Longrightarrow>
   display_mcq ev st =
     \<lparr>outcome = Done,
      page = [Warning ''No questions available. Please generate MCQs first.''], state = st\<rparr>"
  by (auto simp: display_mcq_def)

lemma display_mcq_cases:
  obtains (absent) "mcq_df st = None \<or> (\<exists>df. mcq_df st = Some df \<and> empty df)"
  | (failed) df e pg where "mcq_df st = Some df" "\<not> empty df"
      "question_part df (current_index st) = Inl (e, pg)"
  | (ready) df pg opts where "mcq_df st = Some df" "\<not> empty df"
      "question_part df (current_index st) = Inr (pg, opts)"
proof (cases "mcq_df st")
  case None
  then show ?thesis using absent by simp
next
  case (Some df)
  show ?thesis
  proof (cases "empty df")
    case True
    with Some show ?thesis using absent by simp
  next
    case False
    show ?thesis
    proof (cases "question_part df (current_index st)")
      case (Inl a)
      with Some False show ?thesis using failed by (cases a) auto
    next
      case (Inr b)
      with Some False show ?thesis using ready by (cases b) auto
    qed
  qed
qed

lemma display_mcq_bank: "mcq_df (state (display_mcq ev st)) = mcq_df st"
proof (cases st rule: display_mcq_cases)
  case absent
  then show ?thesis by (simp add: display_mcq_absent)
next
  case (failed df e pg)
  then show ?thesis by (simp add: display_mcq_failed)
next
  case (ready df pg opts)
  then show ?thesis
    by (simp add: display_mcq_ready Let_def navigation_state reset_save_state
             split: option.splits)
qed

lemma display_mcq_select:
  "state (display_mcq (Click (OptionButton j opt)) st) =
     (if j = current_index st \<and> opt \<in> set (buttons_of st)
      then st\<lparr>saved_answers := (saved_answers st)(j \<mapsto> opt)\<rparr> else st)"
proof (cases st rule: display_mcq_cases)
  case absent
  then show ?thesis by (auto simp: display_mcq_absent buttons_of_def)
next
  case (failed df e pg)
  then show ?thesis by (simp add: display_mcq_failed buttons_of_def)
next
  case (ready df pg opts)
  then show ?thesis
    by (simp add: display_mcq_ready Let_def navigation_state reset_save_state
                  buttons_of_def chosen_def)
qed

lemma option_button_inj: "option_button j opt \<in> option_button i ` S \<longleftrightarrow> j = i \<and> opt \<in> S"
  by (auto simp: option_button_def)

lemma option_button_other:
  "option_button j opt \<noteq> Question i q"
  "option_button j opt \<noteq> Warning m"
  "option_button j opt \<noteq> Button (ResetButton i) l"
  "option_button j opt \<noteq> Button (SaveButton i) l"
  "option_button j opt \<noteq> Button PreviousButton l"
  "option_button j opt \<noteq> Button NextButton l"
  "option_button j opt \<noteq> Separator"
  by (simp_all add: option_button_def)

lemma navigation_page:
  "option_button j opt \<in> set (page (navigation ev df pg st)) \<longleftrightarrow> option_button j opt \<in> set pg"
  by (simp add: navigation_def Let_def option_button_other)

lemma reset_save_page:
  "page (reset_save ev i pg st) =
     pg @ [Button (ResetButton i) ''Reset Answer'', Button (SaveButton i) ''Save Answer'']"
  by (simp add: reset_save_def)

lemma option_button_on_page:
  "option_button j opt \<in> set (page (display_mcq ev st)) \<longleftrightarrow>
     j = current_index st \<and> opt \<in> set (buttons_of st)"
proof (cases st rule: display_mcq_cases)
  case absent
  then show ?thesis by (auto simp: display_mcq_absent buttons_of_def option_button_other)
next
  case (failed df e pg)
  then show ?thesis
    using question_part_failed_page [OF failed(3)]
    by (auto simp: display_mcq_failed buttons_of_def option_button_other)
next
  case (ready df pg opts)
  from question_part_header [OF ready(3)] obtain q where pg: "pg = [Question (current_index st) q]"
    by blast
  have b: "buttons_of st = shown opts []"
    using ready by (simp add: buttons_of_def)
  show ?thesis
    unfolding display_mcq_ready [OF ready] Let_def b pg
    by (simp add: navigation_page reset_save_page option_button_other option_button_inj)
qed

lemma buttons_of_saved [simp]: "buttons_of (st\<lparr>saved_answers := m\<rparr>) = buttons_of st"
  by (cases "mcq_df st") (simp_all add: buttons_of_def)

subsection \<open>The sample session, evaluated\<close>

lemma sample_df_eval:
  "sample_df =
     \<lparr>columns = [Name ''question'', Name ''options'', Name ''answer'', Name ''language''],
      rows = map (map (\<lambda>(k, v). (Name k, v))) (map items sample_mcqs)\<rparr>"
  by (simp add: sample_df_def from_records_def sample_mcqs_def)

lemma sample_df_shape:
  "\<not> empty sample_df" "len sample_df = 3" "length (rows sample_df) = 3"
  "columns sample_df = [Name ''question'', Name ''options'', Name ''answer'', Name ''language'']"
  by (simp_all add: sample_df_eval sample_mcqs_def empty_def len_def)

lemma placeholder_not_blank: "strip placeholder \<noteq> []"
  by (simp add: strip_def strip_chars_def placeholder_def py_isspace_def)

lemma sample_question_part:
  "question_part sample_df 0 = Inr ([Question 0 ''What is 2 + 2?''], [''1'', ''2'', ''4'', ''8''])"
  "question_part sample_df 2 =
     Inr ([Question 2 ''Which string has no characters?''], [placeholder, ''a'', ''ab'', ''abc''])"
  by (simp_all add: question_part_def sample_df_eval sample_mcqs_def iloc_def len_def getitem_def
        get_default_def header_def Let_def strip_def strip_chars_def py_isspace_def)

lemma loaded_fields:
  "mcq_df (loaded i) = Some sample_df" "current_index (loaded i) = i"
  "saved_answers (loaded i) = Map.empty" "selected_level (loaded i) = Some ''Beginner''"
  by (simp_all add: loaded_def fresh_def)

lemma sample_buttons:
  "buttons_of (loaded 0) = [''1'', ''2'', ''4'', ''8'']"
  "buttons_of (loaded 2) = [placeholder, ''a'', ''ab'', ''abc'']"
  by (simp_all add: buttons_of_def loaded_fields sample_df_shape sample_question_part
        placeholder_def)

subsection \<open>Selecting an option\<close>

text \<open>
  C8. Selecting the same option twice leaves the saved answers as the first selection left
  them, and selecting an option whose button is on the page stores it as the answer of the
  current question, whatever was stored for that question before; the answers of the
  other questions, the bank and the position stay as they were.
\<close>

theorem select_idempotent_overwrites:
  "state (display_mcq (Click (OptionButton i opt)) (state (display_mcq (Click (OptionButton i opt)) st)))
     = state (display_mcq (Click (OptionButton i opt)) st)
   \<and> (option_button i opt' \<in> set (page (display_mcq ev st)) \<longrightarrow>
        state (display_mcq (Click (OptionButton i opt')) st)
          = st\<lparr>saved_answers := (saved_answers st)(i \<mapsto> opt')\<rparr>)"
  by (simp add: display_mcq_select option_button_on_page)

theorem select_idempotent_overwrites_witness:
  "option_button 0 ''2'' \<in> set (page (display_mcq NoClick (loaded 0)))
   \<and> state (display_mcq (Click (OptionButton 0 ''2''))
        (state (display_mcq (Click (OptionButton 0 ''4'')) (loaded 0))))
       = (loaded 0)\<lparr>saved_answers := [0 \<mapsto> ''2'']\<rparr>"
  using select_idempotent_overwrites [of 0 "''4''" "loaded 0" "''2''" NoClick]
    select_idempotent_overwrites [of 0 "''2''" "state (display_mcq (Click (OptionButton 0 ''4'')) (loaded 0))" "''2''" NoClick]
  by (simp add: option_button_on_page display_mcq_select sample_buttons loaded_fields)

subsection \<open>Reset and the navigation buttons\<close>

lemma complete_ready:
  assumes "mcq_df st = Some df" "\<not> empty df"
    and "question_part df (current_index st) = Inr (pg, opts)"
  shows "complete st \<longleftrightarrow> shown opts [] = opts"
  using assms by (simp add: complete_def)

lemma complete_absent:
  "mcq_df st = None \<or> (\<exists>df. mcq_df st = Some df \<and> empty df) \<Longrightarrow> \<not> complete st"
  by (auto simp: complete_def)

lemma complete_failed:
  assumes "mcq_df st = Some df" "\<not> empty df"
    and "question_part df (current_index st) = Inl (e, pg)"
  shows "\<not> complete st"
  using assms by (simp add: complete_def)

lemma complete_saved [simp]: "complete (st\<lparr>saved_answers := m\<rparr>) = complete st"
  by (cases "mcq_df st") (simp_all add: complete_def)

lemma navigation_page_append:
  "page (navigation ev df pg st) =
     pg @ (if current_index st > 0 then [Button PreviousButton ''Previous''] else [])
        @ (if current_index st > 0 \<and> ev = Click PreviousButton then []
           else (if current_index st < len df - 1 then [Button NextButton ''Next''] else [])
              @ (if current_index st < len df - 1 \<and> ev = Click NextButton then []
                 else [Separator]))"
  by (simp add: navigation_def Let_def)

lemma not_option_button:
  "Button (ResetButton j) l \<notin> option_button i ` S"
  "Button (SaveButton j) l \<notin> option_button i ` S"
  "Button PreviousButton l \<notin> option_button i ` S"
  "Button NextButton l \<notin> option_button i ` S"
  by (auto simp: option_button_def)

lemma chosen_simps:
  "chosen NoClick i opts = None"
  "chosen (Click (ResetButton j)) i opts = None"
  "chosen (Click (SaveButton j)) i opts = None"
  "chosen (Click PreviousButton) i opts = None"
  "chosen (Click NextButton) i opts = None"
  "chosen (Click GenerateButton) i opts = None"
  "chosen (Click SubmitButton) i opts = None"
  "chosen (Click (LevelButton s)) i opts = None"
  by (simp_all add: chosen_def)

lemma display_mcq_reset:
  "state (display_mcq (Click (ResetButton j)) st) =
     (if complete st \<and> j = current_index st
      then st\<lparr>saved_answers := (saved_answers st)(j := None)\<rparr> else st)"
proof (cases st rule: display_mcq_cases)
  case absent
  then show ?thesis by (simp add: display_mcq_absent complete_absent)
next
  case (failed df e pg)
  then show ?thesis by (simp add: display_mcq_failed complete_failed)
next
  case (ready df pg opts)
  show ?thesis
    unfolding display_mcq_ready [OF ready] Let_def complete_ready [OF ready]
    by (simp add: chosen_simps navigation_state reset_save_state)
qed

lemma display_mcq_previous:
  "state (display_mcq (Click PreviousButton) st) =
     (if complete st \<and> current_index st > 0
      then st\<lparr>current_index := current_index st - 1\<rparr> else st)"
proof (cases st rule: display_mcq_cases)
  case absent
  then show ?thesis by (simp add: display_mcq_absent complete_absent)
next
  case (failed df e pg)
  then show ?thesis by (simp add: display_mcq_failed complete_failed)
next
  case (ready df pg opts)
  show ?thesis
    unfolding display_mcq_ready [OF ready] Let_def complete_ready [OF ready]
    by (simp add: chosen_simps navigation_state reset_save_state)
qed

lemma display_mcq_next:
  assumes "mcq_df st = Some df"
  shows "state (display_mcq (Click NextButton) st) =
     (if complete st \<and> current_index st < len df - 1
      then st\<lparr>current_index := current_index st + 1\<rparr> else st)"
proof (cases st rule: display_mcq_cases)
  case absent
  then show ?thesis by (simp add: display_mcq_absent complete_absent)
next
  case (failed df e pg)
  then show ?thesis by (simp add: display_mcq_failed complete_failed)
next
  case (ready df' pg opts)
  with assms have "df' = df" by simp
  with ready show ?thesis
    unfolding display_mcq_ready [OF ready] Let_def complete_ready [OF ready]
    by (simp add: chosen_simps navigation_state reset_save_state)
qed

lemma display_mcq_idle:
  assumes "ev = NoClick \<or> ev = Click (SaveButton j) \<or> ev = Click GenerateButton
     \<or> ev = Click SubmitButton \<or> ev = Click (LevelButton s)"
  shows "state (display_mcq ev st) = st"
proof (cases st rule: display_mcq_cases)
  case absent
  then show ?thesis by (simp add: display_mcq_absent)
next
  case (failed df e pg)
  then show ?thesis by (simp add: display_mcq_failed)
next
  case (ready df pg opts)
  show ?thesis
    unfolding display_mcq_ready [OF ready] Let_def
    using assms by (auto simp: chosen_simps navigation_state reset_save_state)
qed

lemma reset_button_on_page:
  "Button (ResetButton j) l \<in> set (page (display_mcq ev st)) \<longleftrightarrow>
     complete st \<and> j = current_index st \<and> l = ''Reset Answer''"
proof (cases st rule: display_mcq_cases)
  case absent
  then show ?thesis by (simp add: display_mcq_absent complete_absent)
next
  case (failed df e pg)
  then show ?thesis
    using question_part_failed_page [OF failed(3)]
    by (auto simp: display_mcq_failed complete_failed)
next
  case (ready df pg opts)
  from question_part_header [OF ready(3)] obtain q where pg: "pg = [Question (current_index st) q]"
    by blast
  show ?thesis
    unfolding display_mcq_ready [OF ready] Let_def complete_ready [OF ready] pg
    by (auto simp: navigation_page_append reset_save_page not_option_button)
qed

lemma navigation_buttons_on_page:
  assumes "mcq_df st = Some df"
  shows "(Button PreviousButton l \<in> set (page (display_mcq NoClick st)) \<longleftrightarrow>
            complete st \<and> current_index st > 0 \<and> l = ''Previous'')
       \<and> (Button NextButton l \<in> set (page (display_mcq NoClick st)) \<longleftrightarrow>
            complete st \<and> current_index st < len df - 1 \<and> l = ''Next'')"
proof (cases st rule: display_mcq_cases)
  case absent
  then show ?thesis by (simp add: display_mcq_absent complete_absent)
next
  case (failed df e pg)
  then show ?thesis
    using question_part_failed_page [OF failed(3)]
    by (auto simp: display_mcq_failed complete_failed)
next
  case (ready df' pg opts)
  from question_part_header [OF ready(3)] obtain q where pg: "pg = [Question (current_index st) q]"
    by blast
  from ready assms have df: "df' = df" by simp
  show ?thesis
    unfolding display_mcq_ready [OF ready] Let_def complete_ready [OF ready] pg df
    by (auto simp: navigation_page_append reset_save_page not_option_button reset_save_state
          chosen_simps)
qed

subsection \<open>Submitting\<close>

lemma iterrows_map: "iterrows df = map (\<lambda>i. (int i, rows df ! i)) [0..<length (rows df)]"
  unfolding iterrows_def by (rule nth_equalityI) simp_all

lemma correct_count_eq:
  assumes "Name ''answer'' \<in> set (columns df)"
  shows "correct_count df saved irs =
     Inr (length (filter (\<lambda>(i, row). case saved i of None \<Rightarrow> False
                     | Some given \<Rightarrow> Some (JStr given) = map_of row (Name ''answer'')) irs))"
proof (induction irs)
  case Nil
  show ?case by simp
next
  case (Cons p irs)
  obtain i row where p: "p = (i, row)" by (cases p)
  show ?case
  proof (cases "saved i")
    case None
    then show ?thesis using Cons p by simp
  next
    case (Some given)
    then show ?thesis using Cons p assms by (simp add: getitem_def)
  qed
qed

lemma incorrect_answers_eq:
  assumes "Name ''answer'' \<in> set (columns df)" "Name ''question'' \<in> set (columns df)"
  shows "incorrect_answers df saved irs pg st =
     \<lparr>outcome = Done,
      page = pg @ concat (map (\<lambda>(i, row).
               [ReportQuestion (i + 1) (map_of row (Name ''question'')),
                ReportYourAnswer (the (saved i)),
                ReportCorrectAnswer (map_of row (Name ''answer'')), Separator])
             (filter (\<lambda>(i, row). case saved i of None \<Rightarrow> False
                     | Some given \<Rightarrow> Some (JStr given) \<noteq> map_of row (Name ''answer'')) irs)),
      state = st\<rparr>"
proof (induction irs arbitrary: pg)
  case Nil
  show ?case by simp
next
  case (Cons p irs)
  obtain i row where p: "p = (i, row)" by (cases p)
  show ?case
  proof (cases "saved i")
    case None
    then show ?thesis using Cons p by simp
  next
    case (Some given)
    then show ?thesis using Cons p assms by (simp add: getitem_def)
  qed
qed

lemma submit_test_loaded:
  assumes "mcq_df st = Some df" "\<not> empty df"
    and "Name ''answer'' \<in> set (columns df)" "Name ''question'' \<in> set (columns df)"
  shows "submit_test st =
     \<lparr>outcome = Done,
      page = Success (length (filter (counted_correct df (saved_answers st))
                                [0..<length (rows df)])) (len df)
             # Heading ''Incorrect Answers''
             # concat (map (report_entry df (saved_answers st))
                          (filter (listed_incorrect df (saved_answers st))
                             [0..<length (rows df)])),
      state = cleared st\<rparr>"
proof -
  let ?saved = "saved_answers st"
  have c: "(\<lambda>(i, row). case ?saved i of None \<Rightarrow> False
              | Some given \<Rightarrow> Some (JStr given) = map_of row (Name ''answer''))
           \<circ> (\<lambda>i. (int i, rows df ! i)) = counted_correct df ?saved"
    by (auto simp: fun_eq_iff counted_correct_def answer_of_def split: option.splits)
  have l: "(\<lambda>(i, row). case ?saved i of None \<Rightarrow> False
              | Some given \<Rightarrow> Some (JStr given) \<noteq> map_of row (Name ''answer''))
           \<circ> (\<lambda>i. (int i, rows df ! i)) = listed_incorrect df ?saved"
    by (auto simp: fun_eq_iff listed_incorrect_def answer_of_def split: option.splits)
  have r: "(\<lambda>(i, row). [ReportQuestion (i + 1) (map_of row (Name ''question'')),
                ReportYourAnswer (the (?saved i)),
                ReportCorrectAnswer (map_of row (Name ''answer'')), Separator])
           \<circ> (\<lambda>i. (int i, rows df ! i)) = report_entry df ?saved"
    by (auto simp: fun_eq_iff report_entry_def answer_of_def question_of_def)
  show ?thesis
    using assms(1,2)
    by (simp add: submit_test_def Let_def correct_count_eq [OF assms(3)]
          incorrect_answers_eq [OF assms(3,4)] iterrows_map filter_map c l r cleared_def)
qed





lemma incorrect_answers_state:
  "state (incorrect_answers df saved irs pg st) = st"
proof (induction irs arbitrary: pg)
  case Nil
  show ?case by simp
next
  case (Cons p irs)
  obtain i row where p: "p = (i, row)" by (cases p)
  show ?case
    using Cons p by (simp split: option.splits sum.splits)
qed




lemma answered_fields:
  "mcq_df answered = Some sample_df" "current_index answered = 1"
  "saved_answers answered = [0 \<mapsto> ''4'', 1 \<mapsto> ''None'']"
  by (simp_all add: answered_def loaded_fields)

lemma sample_answers:
  "answer_of sample_df 0 = Some (JStr ''4'')"
  "answer_of sample_df (Suc 0) = Some (JStr ''[3, 2, 1]'')"
  "answer_of sample_df 2 = Some (JStr [])"
  "question_of sample_df (Suc 0) = Some (JStr ''What does the following Python code output?'')"
  "question_of sample_df 2 = Some (JStr ''Which string has no characters?'')"
  by (simp_all add: answer_of_def question_of_def sample_df_eval sample_mcqs_def)

lemma sample_positions: "[0..<length (rows sample_df)] = [0, Suc 0, 2]"
  by (simp add: sample_df_shape upt_rec numeral_3_eq_3 numeral_2_eq_2)











text \<open>
  C6. When no bank is loaded (none at all, or an empty frame), \<^const>\<open>submit_test\<close> shows
  the warning and nothing else, raises nothing and leaves the session state as it is.
\<close>
theorem submit_without_bank:
  assumes "mcq_df st = None \<or> (\<exists>df. mcq_df st = Some df \<and> empty df)"
  shows "submit_test st =
     \<lparr>outcome = Done,
      page = [Warning ''No MCQs available. Please generate MCQs first.''], state = st\<rparr>"
  using assms by (auto simp: submit_test_def)

theorem submit_without_bank_witness:
  "mcq_df fresh = None
   \<and> submit_test fresh =
       \<lparr>outcome = Done,
        page = [Warning ''No MCQs available. Please generate MCQs first.''], state = fresh\<rparr>
   \<and> empty \<lparr>columns = [], rows = []\<rparr>
   \<and> submit_test (fresh\<lparr>mcq_df := Some \<lparr>columns = [], rows = []\<rparr>\<rparr>) =
       \<lparr>outcome = Done,
        page = [Warning ''No MCQs available. Please generate MCQs first.''],
        state = fresh\<lparr>mcq_df := Some \<lparr>columns = [], rows = []\<rparr>\<rparr>\<rparr>"
  using submit_without_bank [of fresh]
    submit_without_bank [of "fresh\<lparr>mcq_df := Some \<lparr>columns = [], rows = []\<rparr>\<rparr>"]
  by (simp add: fresh_def empty_def)

lemma display_mcq_outcome_reset:
  "complete st \<Longrightarrow> outcome (display_mcq (Click (ResetButton j)) st) = Done"
proof (cases st rule: display_mcq_cases)
  case absent
  then show ?thesis by (simp add: display_mcq_absent)
next
  case (failed df e pg)
  moreover assume "complete st"
  ultimately show ?thesis by (simp add: complete_failed)
next
  case (ready df pg opts)
  assume "complete st"
  then show ?thesis
    unfolding display_mcq_ready [OF ready] Let_def complete_ready [OF ready]
    by (simp add: navigation_def Let_def)
qed

text \<open>
  C9. A click on the reset button of the page removes the answer saved for the current
  question and nothing else: the answers of the other questions, the bank and the
  position are unchanged, and nothing is raised. When no answer is saved for the current
  question the click changes nothing.
\<close>
theorem reset_removes_current_answer:
  "(Button (ResetButton i) l \<in> set (page (display_mcq ev st)) \<longrightarrow>
      i = current_index st
      \<and> outcome (display_mcq (Click (ResetButton i)) st) = Done
      \<and> state (display_mcq (Click (ResetButton i)) st) =
          st\<lparr>saved_answers := (saved_answers st)(i := None)\<rparr>)
   \<and> (saved_answers st (current_index st) = None \<longrightarrow>
        state (display_mcq (Click (ResetButton i)) st) = st)"
  by (simp add: reset_button_on_page display_mcq_reset display_mcq_outcome_reset fun_upd_idem)

lemma sample_question_part_1:
  "question_part sample_df 1 =
     Inr ([Question 1 ''What does the following Python code output?''],
          [''Syntax Error'', ''[1, 2, 3]'', ''[3, 2, 1]'', ''None''])"
  by (simp add: question_part_def sample_df_eval sample_mcqs_def iloc_def len_def getitem_def
        get_default_def header_def Let_def strip_def strip_chars_def py_isspace_def)

lemma sample_complete: "complete (loaded 0)" "complete (loaded 1)" "complete (loaded 2)"
  by (simp_all add: complete_def loaded_fields sample_df_shape sample_question_part
        sample_question_part_1 placeholder_def)

theorem reset_removes_current_answer_witness:
  "Button (ResetButton 1) ''Reset Answer'' \<in> set (page (display_mcq NoClick answered))
   \<and> state (display_mcq (Click (ResetButton 1)) answered) =
       (loaded 1)\<lparr>saved_answers := [0 \<mapsto> ''4'']\<rparr>
   \<and> saved_answers (loaded 1) (current_index (loaded 1)) = None
   \<and> state (display_mcq (Click (ResetButton 1)) (loaded 1)) = loaded 1"
proof -
  have c: "complete answered"
    by (simp add: answered_def sample_complete)
  have b: "Button (ResetButton 1) ''Reset Answer'' \<in> set (page (display_mcq NoClick answered))"
    by (simp add: reset_button_on_page c answered_fields)
  have u: "[0 \<mapsto> ''4'', 1 \<mapsto> ''None''](1 := None) = [0::int \<mapsto> ''4'']"
    by (simp add: fun_eq_iff)
  have n: "saved_answers (loaded 1) (current_index (loaded 1)) = None"
    by (simp add: loaded_fields)
  from reset_removes_current_answer [of 1 "''Reset Answer''" NoClick answered] b
    reset_removes_current_answer [of 1 l NoClick "loaded 1"] n
  show ?thesis
    by (simp add: answered_def loaded_fields u)
qed

subsection \<open>The position stays in the bank\<close>

lemma in_range_saved [simp]: "in_range (st\<lparr>saved_answers := m\<rparr>) = in_range st"
  by (cases "mcq_df st") (simp_all add: in_range_def)

lemma display_mcq_in_range:
  assumes "in_range st"
  shows "in_range (state (display_mcq ev st))"
proof (cases "mcq_df st")
  case None
  then show ?thesis using assms by (simp add: display_mcq_absent)
next
  case (Some df)
  show ?thesis
  proof (cases ev)
    case NoClick
    then show ?thesis using assms by (simp add: display_mcq_idle)
  next
    case (Click w)
    show ?thesis
    proof (cases w)
      case (LevelButton s)
      with Click assms show ?thesis by (simp add: display_mcq_idle)
    next
      case GenerateButton
      with Click assms show ?thesis by (simp add: display_mcq_idle)
    next
      case (OptionButton j opt)
      with Click assms show ?thesis by (simp add: display_mcq_select)
    next
      case (ResetButton j)
      with Click assms show ?thesis by (simp add: display_mcq_reset)
    next
      case (SaveButton j)
      with Click assms show ?thesis by (simp add: display_mcq_idle)
    next
      case PreviousButton
      with Click assms Some show ?thesis
        by (simp add: display_mcq_previous in_range_def)
    next
      case NextButton
      with Click assms Some show ?thesis
        by (simp add: display_mcq_next [OF Some] in_range_def)
    next
      case SubmitButton
      with Click assms show ?thesis by (simp add: display_mcq_idle)
    qed
  qed
qed

lemma submit_test_state: "state (submit_test st) = st \<or> state (submit_test st) = cleared st"
  by (simp add: submit_test_def Let_def incorrect_answers_state cleared_def
           split: option.splits sum.splits)

lemma in_range_cleared: "in_range (cleared st)"
  by (simp add: in_range_def cleared_def)

lemma generate_click_state:
  "state (generate_click w topic st) = st \<and> outcome (generate_click w topic st) \<noteq> Rerun
   \<or> (\<exists>df. \<not> empty df \<and> outcome (generate_click w topic st) = Rerun
         \<and> state (generate_click w topic st) =
             st\<lparr>mcq_df := Some df, current_index := 0, saved_answers := Map.empty\<rparr>)"
  by (auto simp: generate_click_def Let_def split: option.splits sum.splits)

lemma in_range_installed:
  "\<not> empty df \<Longrightarrow>
   in_range (st\<lparr>mcq_df := Some df, current_index := 0, saved_answers := Map.empty\<rparr>)"
  by (cases "rows df") (simp_all add: in_range_def empty_def len_def)

text \<open>
  C7, amended. With a bank loaded and \<open>currentIndex\<close> one of its positions,
  \<open>currentIndex\<close> is still one of its positions after \<^const>\<open>display_mcq\<close>, whatever was
  clicked (and after \<^const>\<open>generate_click\<close> and \<^const>\<open>submit_test\<close>, which load a bank at
  position 0 or none). The Previous button is on the page iff the page is built to its end
  (\<^const>\<open>complete\<close>: no exception before the navigation buttons) and \<open>currentIndex > 0\<close>,
  and under that same condition a click on it decrements \<open>currentIndex\<close> by 1; the Next
  button is on the page iff the page is built to its end and \<open>currentIndex < len(bank) - 1\<close>,
  and under that same condition a click on it increments \<open>currentIndex\<close> by 1. In every
  other case, at position 0 for Previous and at the last position for Next among them, the
  click changes nothing.
\<close>
theorem index_stays_in_range:
  assumes "mcq_df st = Some df" "in_range st"
  shows "in_range (state (display_mcq ev st))
     \<and> in_range (state (generate_click w topic st))
     \<and> in_range (state (submit_test st))
     \<and> (Button PreviousButton l \<in> set (page (display_mcq NoClick st)) \<longleftrightarrow>
          complete st \<and> 0 < current_index st \<and> l = ''Previous'')
     \<and> (Button NextButton l \<in> set (page (display_mcq NoClick st)) \<longleftrightarrow>
          complete st \<and> current_index st < len df - 1 \<and> l = ''Next'')
     \<and> state (display_mcq (Click PreviousButton) st) =
          (if complete st \<and> 0 < current_index st
           then st\<lparr>current_index := current_index st - 1\<rparr> else st)
     \<and> state (display_mcq (Click NextButton) st) =
          (if complete st \<and> current_index st < len df - 1
           then st\<lparr>current_index := current_index st + 1\<rparr> else st)
     \<and> (current_index st = 0 \<longrightarrow> state (display_mcq (Click PreviousButton) st) = st)
     \<and> (current_index st = len df - 1 \<longrightarrow> state (display_mcq (Click NextButton) st) = st)"
proof -
  have g: "in_range (state (generate_click w topic st))"
    using generate_click_state [of w topic st] assms(2) in_range_installed by auto
  have s: "in_range (state (submit_test st))"
    using submit_test_state [of st] assms(2) in_range_cleared by auto
  show ?thesis
    using navigation_buttons_on_page [OF assms(1), of l]
    by (simp add: display_mcq_in_range [OF assms(2)] g s display_mcq_previous
          display_mcq_next [OF assms(1)])
qed

theorem index_stays_in_range_witness:
  "mcq_df (loaded 0) = Some sample_df \<and> in_range (loaded 0)
   \<and> Button PreviousButton ''Previous'' \<notin> set (page (display_mcq NoClick (loaded 0)))
   \<and> Button NextButton ''Next'' \<in> set (page (display_mcq NoClick (loaded 0)))
   \<and> state (display_mcq (Click PreviousButton) (loaded 0)) = loaded 0
   \<and> state (display_mcq (Click NextButton) (loaded 0)) = loaded 1
   \<and> mcq_df (loaded 2) = Some sample_df \<and> in_range (loaded 2)
   \<and> Button PreviousButton ''Previous'' \<in> set (page (display_mcq NoClick (loaded 2)))
   \<and> Button NextButton ''Next'' \<notin> set (page (display_mcq NoClick (loaded 2)))
   \<and> state (display_mcq (Click PreviousButton) (loaded 2)) = loaded 1
   \<and> state (display_mcq (Click NextButton) (loaded 2)) = loaded 2"
proof -
  have h0: "mcq_df (loaded 0) = Some sample_df" "in_range (loaded 0)"
    and h2: "mcq_df (loaded 2) = Some sample_df" "in_range (loaded 2)"
    by (simp_all add: loaded_fields in_range_def sample_df_shape)
  have m: "(loaded 0)\<lparr>current_index := 1\<rparr> = loaded 1"
    "(loaded 2)\<lparr>current_index := 1\<rparr> = loaded 1"
    by (simp_all add: loaded_def)
  from index_stays_in_range [OF h0, of NoClick w topic "''Previous''"]
    index_stays_in_range [OF h0, of NoClick w topic "''Next''"]
    index_stays_in_range [OF h2, of NoClick w topic "''Previous''"]
    index_stays_in_range [OF h2, of NoClick w topic "''Next''"] h0 h2
  show ?thesis
    by (simp add: sample_complete loaded_fields sample_df_shape m)
qed

lemma mixed_df_eval:
  "mixed_df =
     \<lparr>columns = [Name ''question'', Name ''options'', Name ''answer'', Name ''language''],
      rows = map (map (\<lambda>(k, v). (Name k, v))) (map items mixed_mcqs)\<rparr>"
  by (simp add: mixed_df_def from_records_def mixed_mcqs_def)

lemma mixed_fields:
  "mcq_df (mixed i) = Some mixed_df" "current_index (mixed i) = i"
  "\<not> empty mixed_df" "len mixed_df = 3"
  by (simp_all add: mixed_def fresh_def mixed_df_eval mixed_mcqs_def empty_def len_def)

lemma mixed_question_part:
  "question_part mixed_df 0 = Inr ([Question 0 ''What is 2 + 2?''], [''1'', ''2'', ''4'', ''8''])"
  "question_part mixed_df 1 = Inl (AttributeError, [Question 1 ''What is 3 + 3?''])"
  by (simp_all add: question_part_def mixed_df_eval mixed_mcqs_def iloc_def len_def getitem_def
        get_default_def header_def Let_def strip_def strip_chars_def py_isspace_def)

lemma mixed_complete: "complete (mixed 0)" "\<not> complete (mixed 1)"
  by (simp_all add: complete_def mixed_fields mixed_question_part)

text \<open>
  C7, as stated, fails at the second question of a bank of three whose second question
  has numbers for options. One click on Next leads there from the first question; there
  \<open>currentIndex\<close> is 1, greater than 0 and less than \<open>len(bank) - 1\<close>, yet line 101 raises
  before the navigation buttons are made: the page has neither Previous nor Next, and a
  click on either changes nothing.
\<close>
theorem no_navigation_after_exception:
  "state (display_mcq (Click NextButton) (mixed 0)) = mixed 1
   \<and> mcq_df (mixed 1) = Some mixed_df \<and> in_range (mixed 1)
   \<and> 0 < current_index (mixed 1) \<and> current_index (mixed 1) < len mixed_df - 1
   \<and> display_mcq NoClick (mixed 1) =
       \<lparr>outcome = Raised AttributeError, page = [Question 1 ''What is 3 + 3?''],
        state = mixed 1\<rparr>
   \<and> Button PreviousButton ''Previous'' \<notin> set (page (display_mcq NoClick (mixed 1)))
   \<and> Button NextButton ''Next'' \<notin> set (page (display_mcq NoClick (mixed 1)))
   \<and> state (display_mcq (Click PreviousButton) (mixed 1)) = mixed 1
   \<and> state (display_mcq (Click NextButton) (mixed 1)) = mixed 1"
proof -
  have n: "state (display_mcq (Click NextButton) (mixed 0)) = mixed 1"
    unfolding display_mcq_next [OF mixed_fields(1)]
    by (simp add: mixed_complete mixed_fields) (simp add: mixed_def)
  have d: "display_mcq ev (mixed 1) =
       \<lparr>outcome = Raised AttributeError, page = [Question 1 ''What is 3 + 3?''],
        state = mixed 1\<rparr>" for ev
    by (rule display_mcq_failed [of _ mixed_df])
       (simp_all add: mixed_fields mixed_question_part)
  show ?thesis
    unfolding d n by (simp add: mixed_fields in_range_def)
qed

subsection \<open>Options that are not strings\<close>

lemma valid_text_non_string:
  "x \<in> set opts \<Longrightarrow> \<forall>s. x \<noteq> JStr s \<Longrightarrow> valid_text opts = Inl AttributeError"
  by (induction opts rule: valid_text.induct) (auto split: sum.splits)

lemma valid_text_not_blank:
  "valid_text xs = Inr opts \<Longrightarrow> opt \<in> set opts \<Longrightarrow> strip opt \<noteq> []"
  by (induction xs arbitrary: opts rule: valid_text.induct)
     (auto simp: placeholder_not_blank split: sum.splits if_splits)

lemma valid_text_blank:
  "valid_text xs = Inr opts \<Longrightarrow> JStr s \<in> set xs \<Longrightarrow> strip s = [] \<Longrightarrow> placeholder \<in> set opts"
  by (induction xs arbitrary: opts rule: valid_text.induct)
     (auto split: sum.splits if_splits)

lemma shown_subset: "x \<in> set (shown opts seen) \<Longrightarrow> x \<in> set opts"
  by (induction opts arbitrary: seen) (auto split: if_splits)

lemma question_part_options:
  assumes "question_part df i = Inr (pg, opts)" "iloc df i = Inr row"
  shows "\<exists>ys. iterate (get_default df row ''options'' (JArr [])) = Inr ys \<and> valid_text ys = Inr opts"
  using assms by (auto simp: question_part_def Let_def split: sum.splits)

lemma question_part_raises:
  assumes "iloc df i = Inr row"
    and "iterate (get_default df row ''options'' (JArr [])) = Inr ys" "valid_text ys = Inl e"
  shows "\<exists>e' pg. question_part df i = Inl (e', pg) \<and> (pg = [] \<or> (\<exists>q. pg = [Question i q]))"
  using assms by (auto simp: question_part_def Let_def header_def
      split: sum.splits option.splits json.splits)

text \<open>
  C10. When the options of the current question hold an entry that is not a string,
  \<^const>\<open>display_mcq\<close> raises and puts no button on the page, and the session state is as
  before. Where the question text is a string and the frame has a \<open>language\<close> column the
  exception is the \<^verbatim>\<open>AttributeError\<close> of \<^verbatim>\<open>opt.strip()\<close>, raised after the header.
\<close>
theorem non_string_option_raises:
  assumes "mcq_df st = Some df" "\<not> empty df" "iloc df (current_index st) = Inr row"
    and "iterate (get_default df row ''options'' (JArr [])) = Inr opts"
    and "x \<in> set opts" "\<forall>s. x \<noteq> JStr s"
  shows "(\<exists>e. outcome (display_mcq ev st) = Raised e)
     \<and> (\<forall>w l. Button w l \<notin> set (page (display_mcq ev st)))
     \<and> state (display_mcq ev st) = st
     \<and> (\<forall>q. Name ''language'' \<in> set (columns df) \<longrightarrow>
              getitem df row ''question'' = Inr (Some (JStr q)) \<longrightarrow>
              display_mcq ev st =
                \<lparr>outcome = Raised AttributeError, page = [Question (current_index st) q],
                 state = st\<rparr>)"
proof -
  have v: "valid_text opts = Inl AttributeError"
    using assms(5,6) by (rule valid_text_non_string)
  from question_part_raises [OF assms(3,4) v] obtain e pg
    where qp: "question_part df (current_index st) = Inl (e, pg)"
      and pg: "pg = [] \<or> (\<exists>q. pg = [Question (current_index st) q])"
    by blast
  have d: "display_mcq ev st = \<lparr>outcome = Raised e, page = pg, state = st\<rparr>"
    using assms(1,2) qp by (rule display_mcq_failed)
  have "question_part df (current_index st) = Inl (AttributeError, [Question (current_index st) q])"
    if "Name ''language'' \<in> set (columns df)" "getitem df row ''question'' = Inr (Some (JStr q))"
    for q
    using that assms(3,4) v by (simp add: question_part_def Let_def header_def getitem_def)
  with d qp pg show ?thesis by auto
qed

lemma numeric_df_eval:
  "numeric_df =
     \<lparr>columns = [Name ''question'', Name ''options'', Name ''answer'', Name ''language''],
      rows = [[(Name ''question'', JStr ''What is 2 + 2?''),
               (Name ''options'', JArr [JNum 1, JNum 2, JNum 4, JNum 8]),
               (Name ''answer'', JNum 4),
               (Name ''language'', JBool False)]]\<rparr>"
  by (simp add: numeric_df_def from_records_def)

theorem non_string_option_raises_witness:
  "mcq_df numeric = Some numeric_df \<and> \<not> empty numeric_df
   \<and> iloc numeric_df (current_index numeric) = Inr (hd (rows numeric_df))
   \<and> iterate (get_default numeric_df (hd (rows numeric_df)) ''options'' (JArr []))
       = Inr [JNum 1, JNum 2, JNum 4, JNum 8]
   \<and> (\<forall>s. JNum 4 \<noteq> JStr s)
   \<and> display_mcq NoClick numeric =
       \<lparr>outcome = Raised AttributeError, page = [Question 0 ''What is 2 + 2?''],
        state = numeric\<rparr>"
proof -
  have h: "mcq_df numeric = Some numeric_df" "\<not> empty numeric_df"
    "iloc numeric_df (current_index numeric) = Inr (hd (rows numeric_df))"
    "iterate (get_default numeric_df (hd (rows numeric_df)) ''options'' (JArr []))
       = Inr [JNum 1, JNum 2, JNum 4, JNum 8]"
    "JNum 4 \<in> set [JNum 1, JNum 2, JNum 4, JNum 8]" "\<forall>s. JNum 4 \<noteq> JStr s"
    by (simp_all add: numeric_def fresh_def numeric_df_eval empty_def iloc_def len_def
          get_default_def)
  have c: "current_index numeric = 0" "Name ''language'' \<in> set (columns numeric_df)"
    "getitem numeric_df (hd (rows numeric_df)) ''question'' = Inr (Some (JStr ''What is 2 + 2?''))"
    by (simp_all add: numeric_def fresh_def numeric_df_eval getitem_def)
  from non_string_option_raises [OF h, of NoClick] h c show ?thesis
    by simp
qed

subsection \<open>Blank options\<close>

lemma complete_buttons:
  assumes "mcq_df st = Some df" "complete st" "iloc df (current_index st) = Inr row"
  shows "\<exists>ys. iterate (get_default df row ''options'' (JArr [])) = Inr ys
           \<and> valid_text ys = Inr (buttons_of st)"
proof -
  from assms(1,2) have ne: "\<not> empty df" by (simp add: complete_def)
  from assms(1,2) obtain pg opts where qp: "question_part df (current_index st) = Inr (pg, opts)"
    and sh: "shown opts [] = opts"
    by (auto simp: complete_def split: sum.splits)
  have "buttons_of st = opts"
    using assms(1) ne qp sh by (simp add: buttons_of_def)
  with question_part_options [OF qp assms(3)] show ?thesis by simp
qed

lemma buttons_not_blank: "opt \<in> set (buttons_of st) \<Longrightarrow> strip opt \<noteq> []"
proof (cases st rule: display_mcq_cases)
  case absent
  moreover assume "opt \<in> set (buttons_of st)"
  ultimately show ?thesis by (auto simp: buttons_of_def)
next
  case (failed df e pg)
  moreover assume "opt \<in> set (buttons_of st)"
  ultimately show ?thesis by (simp add: buttons_of_def)
next
  case (ready df pg opts)
  assume "opt \<in> set (buttons_of st)"
  with ready have "opt \<in> set opts"
    by (simp add: buttons_of_def shown_subset)
  moreover from ready(3) obtain ys where "valid_text ys = Inr opts"
    by (auto simp: question_part_def Let_def split: sum.splits)
  ultimately show ?thesis by (simp add: valid_text_not_blank)
qed

lemma display_mcq_stores:
  assumes "saved_answers (state (display_mcq ev st)) j = Some v"
  shows "saved_answers st j = Some v \<or> (j = current_index st \<and> v \<in> set (buttons_of st))"
proof (cases "mcq_df st")
  case None
  then show ?thesis using assms by (simp add: display_mcq_absent)
next
  case (Some df)
  show ?thesis
  proof (cases ev)
    case NoClick
    then show ?thesis using assms by (simp add: display_mcq_idle)
  next
    case (Click w)
    show ?thesis
    proof (cases w)
      case (LevelButton s)
      with Click assms show ?thesis by (simp add: display_mcq_idle)
    next
      case GenerateButton
      with Click assms show ?thesis by (simp add: display_mcq_idle)
    next
      case (OptionButton i opt)
      with Click assms show ?thesis by (auto simp: display_mcq_select split: if_splits)
    next
      case (ResetButton i)
      with Click assms show ?thesis by (auto simp: display_mcq_reset split: if_splits)
    next
      case (SaveButton i)
      with Click assms show ?thesis by (simp add: display_mcq_idle)
    next
      case PreviousButton
      with Click assms show ?thesis by (auto simp: display_mcq_previous split: if_splits)
    next
      case NextButton
      with Click assms show ?thesis by (auto simp: display_mcq_next [OF Some] split: if_splits)
    next
      case SubmitButton
      with Click assms show ?thesis by (simp add: display_mcq_idle)
    qed
  qed
qed

lemma complete_question_column:
  assumes "mcq_df st = Some df" "complete st"
  shows "Name ''question'' \<in> set (columns df)"
proof (rule ccontr)
  assume "Name ''question'' \<notin> set (columns df)"
  then have "\<exists>e pg. question_part df (current_index st) = Inl (e, pg)"
    by (simp add: question_part_def getitem_def split: sum.splits)
  with assms show False by (auto simp: complete_def)
qed

text \<open>
  C1, amended. A blank option (empty, or of white space only) is never the text of an
  option button and is never stored as an answer by a click. For a loaded bank and a
  question on display whose page is built to its end (\<^const>\<open>complete\<close>: no exception)
  and whose options, as line 101 iterates them, hold a blank string, the option is on the
  page as the button \<open>Option not available\<close>, and a click on that button stores
  \<open>Option not available\<close> as the answer of the current question. When the frame has an
  \<open>answer\<close> column, \<^const>\<open>submit_test\<close> then scores with that stored label: the question
  counts as correct iff its \<open>answer\<close> cell is the string \<open>Option not available\<close>.
\<close>
theorem blank_option_selects_placeholder:
  assumes "strip opt = []"
  shows "option_button i opt \<notin> set (page (display_mcq ev st))
     \<and> (\<forall>j. saved_answers (state (display_mcq ev st)) j = Some opt \<longrightarrow>
              saved_answers st j = Some opt)
     \<and> (mcq_df st = Some df \<longrightarrow> complete st \<longrightarrow> iloc df (current_index st) = Inr row \<longrightarrow>
          iterate (get_default df row ''options'' (JArr [])) = Inr xs \<longrightarrow> JStr opt \<in> set xs \<longrightarrow>
            option_button (current_index st) placeholder \<in> set (page (display_mcq ev st))
            \<and> state (display_mcq (Click (OptionButton (current_index st) placeholder)) st) =
                 st\<lparr>saved_answers := (saved_answers st)(current_index st \<mapsto> placeholder)\<rparr>
            \<and> (Name ''answer'' \<in> set (columns df) \<longrightarrow>
                 page (submit_test
                   (state (display_mcq (Click (OptionButton (current_index st) placeholder)) st))) =
                   Success (length (filter (counted_correct df
                              ((saved_answers st)(current_index st \<mapsto> placeholder)))
                              [0..<length (rows df)])) (len df)
                   # Heading ''Incorrect Answers''
                   # concat (map (report_entry df
                                     ((saved_answers st)(current_index st \<mapsto> placeholder)))
                                (filter (listed_incorrect df
                                   ((saved_answers st)(current_index st \<mapsto> placeholder)))
                                   [0..<length (rows df)]))
                 \<and> (0 \<le> current_index st \<longrightarrow>
                      (counted_correct df ((saved_answers st)(current_index st \<mapsto> placeholder))
                         (nat (current_index st))
                       \<longleftrightarrow> answer_of df (nat (current_index st)) = Some (JStr placeholder)))))"
proof -
  have n: "opt \<notin> set (buttons_of st)"
    using buttons_not_blank [of opt st] assms by blast
  have a: "option_button i opt \<notin> set (page (display_mcq ev st))"
    using n by (simp add: option_button_on_page)
  have b: "\<forall>j. saved_answers (state (display_mcq ev st)) j = Some opt \<longrightarrow>
              saved_answers st j = Some opt"
    using display_mcq_stores [of ev st _ opt] n by blast
  let ?st' = "st\<lparr>saved_answers := (saved_answers st)(current_index st \<mapsto> placeholder)\<rparr>"
  have c: "option_button (current_index st) placeholder \<in> set (page (display_mcq ev st))
            \<and> state (display_mcq (Click (OptionButton (current_index st) placeholder)) st) = ?st'
            \<and> (Name ''answer'' \<in> set (columns df) \<longrightarrow>
                 page (submit_test
                   (state (display_mcq (Click (OptionButton (current_index st) placeholder)) st))) =
                   Success (length (filter (counted_correct df
                              ((saved_answers st)(current_index st \<mapsto> placeholder)))
                              [0..<length (rows df)])) (len df)
                   # Heading ''Incorrect Answers''
                   # concat (map (report_entry df
                                     ((saved_answers st)(current_index st \<mapsto> placeholder)))
                                (filter (listed_incorrect df
                                   ((saved_answers st)(current_index st \<mapsto> placeholder)))
                                   [0..<length (rows df)]))
                 \<and> (0 \<le> current_index st \<longrightarrow>
                      (counted_correct df ((saved_answers st)(current_index st \<mapsto> placeholder))
                         (nat (current_index st))
                       \<longleftrightarrow> answer_of df (nat (current_index st)) = Some (JStr placeholder))))"
    if h: "mcq_df st = Some df" "complete st" "iloc df (current_index st) = Inr row"
      "iterate (get_default df row ''options'' (JArr [])) = Inr xs" "JStr opt \<in> set xs"
  proof -
    from complete_buttons [OF h(1,2,3)] h(4)
    have v: "valid_text xs = Inr (buttons_of st)" by simp
    have p: "placeholder \<in> set (buttons_of st)"
      using v h(5) assms by (rule valid_text_blank)
    have ne: "\<not> empty df"
      using h(1,2) by (simp add: complete_def)
    have q: "Name ''question'' \<in> set (columns df)"
      using h(1,2) by (rule complete_question_column)
    have s: "state (display_mcq (Click (OptionButton (current_index st) placeholder)) st) = ?st'"
      using p by (simp add: display_mcq_select)
    have m: "mcq_df ?st' = Some df"
      using h(1) by simp
    have sub: "page (submit_test ?st') =
          Success (length (filter (counted_correct df
                     ((saved_answers st)(current_index st \<mapsto> placeholder)))
                     [0..<length (rows df)])) (len df)
          # Heading ''Incorrect Answers''
          # concat (map (report_entry df ((saved_answers st)(current_index st \<mapsto> placeholder)))
                       (filter (listed_incorrect df
                          ((saved_answers st)(current_index st \<mapsto> placeholder)))
                          [0..<length (rows df)]))"
      if "Name ''answer'' \<in> set (columns df)"
      using submit_test_loaded [OF m ne that q] by simp
    show ?thesis
      unfolding s using p sub
      by (simp add: option_button_on_page counted_correct_def)
  qed
  show ?thesis
    using a b c by blast
qed

lemma sample_row_2:
  "iloc sample_df 2 = Inr (rows sample_df ! 2)"
  "get_default sample_df (rows sample_df ! 2) ''options'' (JArr []) =
     Some (JArr [JStr [], JStr ''a'', JStr ''ab'', JStr ''abc''])"
  by (simp_all add: iloc_def len_def get_default_def sample_df_eval sample_mcqs_def)

lemma sample_page_2:
  "page (display_mcq NoClick (loaded 2)) =
     [Question 2 ''Which string has no characters?'',
      Button (OptionButton 2 ''Option not available'') ''Option not available'',
      Button (OptionButton 2 ''a'') ''a'', Button (OptionButton 2 ''ab'') ''ab'',
      Button (OptionButton 2 ''abc'') ''abc'',
      Button (ResetButton 2) ''Reset Answer'', Button (SaveButton 2) ''Save Answer'',
      Button PreviousButton ''Previous'', Separator]"
  by (simp add: display_mcq_def loaded_fields sample_df_shape sample_question_part
        placeholder_def reset_save_def navigation_def Let_def)

text \<open>
  C1, as stated, fails on the third sample question, whose first option and whose correct
  answer are the empty string: the button of that option reads \<open>Option not available\<close>,
  a click on it stores \<open>Option not available\<close> and not the empty string, no click
  stores the empty string, and the submitted test reports the question as answered
  wrongly, the stored label set against the correct answer.
\<close>
theorem blank_option_stores_placeholder:
  "get_default sample_df (rows sample_df ! 2) ''options'' (JArr []) =
     Some (JArr [JStr [], JStr ''a'', JStr ''ab'', JStr ''abc''])
   \<and> answer_of sample_df 2 = Some (JStr [])
   \<and> page (display_mcq NoClick (loaded 2)) =
       [Question 2 ''Which string has no characters?'',
        Button (OptionButton 2 ''Option not available'') ''Option not available'',
        Button (OptionButton 2 ''a'') ''a'', Button (OptionButton 2 ''ab'') ''ab'',
        Button (OptionButton 2 ''abc'') ''abc'',
        Button (ResetButton 2) ''Reset Answer'', Button (SaveButton 2) ''Save Answer'',
        Button PreviousButton ''Previous'', Separator]
   \<and> saved_answers (state (display_mcq (Click (OptionButton 2 ''Option not available''))
        (loaded 2))) 2 = Some ''Option not available''
   \<and> saved_answers (state (display_mcq (Click (OptionButton 2 ''Option not available''))
        (loaded 2))) 2 \<noteq> Some []
   \<and> state (display_mcq (Click (OptionButton 2 [])) (loaded 2)) = loaded 2
   \<and> page (submit_test (state (display_mcq (Click (OptionButton 2 ''Option not available''))
        (loaded 2)))) =
       [Success 0 3, Heading ''Incorrect Answers'',
        ReportQuestion 3 (Some (JStr ''Which string has no characters?'')),
        ReportYourAnswer ''Option not available'', ReportCorrectAnswer (Some (JStr [])),
        Separator]"
proof -
  let ?st' = "(loaded 2)\<lparr>saved_answers := [2 \<mapsto> ''Option not available'']\<rparr>"
  have s: "state (display_mcq (Click (OptionButton 2 ''Option not available'')) (loaded 2)) = ?st'"
    by (simp add: display_mcq_select sample_buttons loaded_fields placeholder_def)
  have h: "mcq_df ?st' = Some sample_df" "\<not> empty sample_df"
    "Name ''answer'' \<in> set (columns sample_df)" "Name ''question'' \<in> set (columns sample_df)"
    by (simp_all add: loaded_fields sample_df_shape)
  have b: "state (display_mcq (Click (OptionButton 2 [])) (loaded 2)) = loaded 2"
    by (simp add: display_mcq_select sample_buttons loaded_fields placeholder_def)
  have p: "page (submit_test ?st') =
       [Success 0 3, Heading ''Incorrect Answers'',
        ReportQuestion 3 (Some (JStr ''Which string has no characters?'')),
        ReportYourAnswer ''Option not available'', ReportCorrectAnswer (Some (JStr [])),
        Separator]"
    unfolding submit_test_loaded [OF h] sample_positions
    by (simp add: sample_df_shape counted_correct_def listed_incorrect_def
          report_entry_def sample_answers)
  show ?thesis
    unfolding s p b by (simp add: sample_row_2 sample_answers sample_page_2)
qed

theorem blank_option_selects_placeholder_witness:
  "strip [] = []
   \<and> mcq_df (loaded 2) = Some sample_df \<and> complete (loaded 2)
   \<and> iloc sample_df (current_index (loaded 2)) = Inr (rows sample_df ! 2)
   \<and> iterate (get_default sample_df (rows sample_df ! 2) ''options'' (JArr [])) =
       Inr [JStr [], JStr ''a'', JStr ''ab'', JStr ''abc'']
   \<and> Name ''answer'' \<in> set (columns sample_df)
   \<and> option_button 2 placeholder \<in> set (page (display_mcq NoClick (loaded 2)))
   \<and> option_button 2 [] \<notin> set (page (display_mcq NoClick (loaded 2)))
   \<and> state (display_mcq (Click (OptionButton 2 placeholder)) (loaded 2)) =
       (loaded 2)\<lparr>saved_answers := [2 \<mapsto> placeholder]\<rparr>
   \<and> \<not> counted_correct sample_df [2 \<mapsto> placeholder] 2"
proof -
  have b: "strip [] = []"
    by (simp add: strip_def strip_chars_def)
  have h: "mcq_df (loaded 2) = Some sample_df" "complete (loaded 2)"
    "iloc sample_df (current_index (loaded 2)) = Inr (rows sample_df ! 2)"
    "iterate (get_default sample_df (rows sample_df ! 2) ''options'' (JArr [])) =
       Inr [JStr [], JStr ''a'', JStr ''ab'', JStr ''abc'']"
    "JStr [] \<in> set [JStr [], JStr ''a'', JStr ''ab'', JStr ''abc'']"
    "Name ''answer'' \<in> set (columns sample_df)"
    by (simp_all add: loaded_fields sample_complete sample_row_2 sample_df_shape)
  have a: "answer_of sample_df 2 \<noteq> Some (JStr placeholder)"
    by (simp add: sample_answers placeholder_def)
  from blank_option_selects_placeholder
         [OF b, of 2 NoClick "loaded 2" sample_df "rows sample_df ! 2"
            "[JStr [], JStr ''a'', JStr ''ab'', JStr ''abc'']"] b h a
  show ?thesis
    by (simp add: loaded_fields)
qed

subsection \<open>Generation\<close>

lemma map_of_Name: "map_of (map (\<lambda>(k, v). (Name k, v)) kvs) (Name key) = map_of kvs key"
  by (induction kvs) auto

lemma from_records_shape:
  "len (from_records ds) = int (length ds)"
  "i < length ds \<Longrightarrow> map_of (rows (from_records ds) ! i) (Name key) = map_of (ds ! i) key"
  "empty (from_records ds) \<longleftrightarrow> ds = [] \<or> (\<forall>d \<in> set ds. d = [])"
  by (auto simp: from_records_def len_def map_of_Name empty_def)

text \<open>
  C2, amended. When the reply of the model parses to a non-empty array of objects,
  \<^const>\<open>generate_question_bank\<close> returns the frame of exactly these objects: one question
  for every object of the array, as many as the model sent, and in every question the
  fields of its object, the options and the answer among them, as they were parsed. With a
  topic and a level the handler installs this frame, provided one object has a field.
  Nothing is checked: the bank has 10 questions, and an answer is one of the options, only
  where the reply has.
\<close>
theorem generated_bank_is_parsed_reply:
  assumes "generate_content w topic level = Inr text"
    and "json_loads w (unfence text) = Some (JArr xs)"
    and "xs \<noteq> []" "list_all is_object xs"
  shows "generate_question_bank w topic level = Inr (Some (from_records (map items xs)))
     \<and> len (from_records (map items xs)) = int (length xs)
     \<and> (\<forall>i < length xs. \<forall>key.
           map_of (rows (from_records (map items xs)) ! i) (Name key) = map_of (items (xs ! i)) key)
     \<and> (topic \<noteq> [] \<longrightarrow> level \<noteq> [] \<longrightarrow> selected_level st = Some level \<longrightarrow>
          (\<exists>x \<in> set xs. items x \<noteq> []) \<longrightarrow>
          generate_click w topic st =
            \<lparr>outcome = Rerun, page = [Write ''Generating MCQs... Please wait.''],
             state = st\<lparr>mcq_df := Some (from_records (map items xs)), current_index := 0,
                        saved_answers := Map.empty\<rparr>\<rparr>)"
proof -
  have g: "generate_question_bank w topic level = Inr (Some (from_records (map items xs)))"
    using assms by (simp add: generate_question_bank_def)
  have e: "\<not> empty (from_records (map items xs))" if "\<exists>x \<in> set xs. items x \<noteq> []"
    using that assms(3) by (auto simp: from_records_shape)
  show ?thesis
    using g e by (auto simp: from_records_shape generate_click_def truthy_def Let_def)
qed

lemma unfence_terse:
  "unfence fenced_reply = short_reply"
  by (simp add: fenced_reply_def unfence_def Let_def strip_def strip_of_def strip_chars_def startswith_def
        py_isspace_def short_reply_def)

lemma terse_fields:
  "generate_content terse topic level = Inr fenced_reply"
  "json_loads terse short_reply = Some (JArr short_mcqs)"
  by (simp_all add: terse_def)

lemma short_frame:
  "from_records (map items short_mcqs) =
     \<lparr>columns = [Name ''question'', Name ''options'', Name ''answer'', Name ''language''],
      rows = [[(Name ''question'', JStr ''What is 2 + 2?''),
               (Name ''options'', JArr [JStr ''1'', JStr ''2'']),
               (Name ''answer'', JStr ''4''),
               (Name ''language'', JBool False)]]\<rparr>"
  by (simp add: short_mcqs_def from_records_def)

theorem generated_bank_is_parsed_reply_witness:
  "generate_content terse ''Arithmetic'' ''Beginner'' =
     Inr fenced_reply
   \<and> json_loads terse (unfence fenced_reply)
       = Some (JArr short_mcqs)
   \<and> short_mcqs \<noteq> [] \<and> list_all is_object short_mcqs
   \<and> generate_question_bank terse ''Arithmetic'' ''Beginner'' =
       Inr (Some (from_records (map items short_mcqs)))
   \<and> len (from_records (map items short_mcqs)) = 1"
proof -
  have h: "generate_content terse ''Arithmetic'' ''Beginner'' =
     Inr fenced_reply"
    "json_loads terse (unfence fenced_reply)
       = Some (JArr short_mcqs)"
    "short_mcqs \<noteq> []" "list_all is_object short_mcqs"
    unfolding unfence_terse by (simp_all add: terse_fields short_mcqs_def)
  from generated_bank_is_parsed_reply [OF h, of fresh] h show ?thesis
    by (simp add: short_mcqs_def)
qed

text \<open>
  C2, as stated, fails on a reply that holds one question whose answer is none of its
  options: the parser accepts it and the handler installs a bank of length 1 with that
  question.
\<close>
theorem generated_bank_of_one_question:
  "outcome (generate_click terse ''Arithmetic'' fresh) = Rerun
   \<and> mcq_df (state (generate_click terse ''Arithmetic'' fresh))
       = Some (from_records (map items short_mcqs))
   \<and> len (from_records (map items short_mcqs)) = 1
   \<and> len (from_records (map items short_mcqs)) \<noteq> 10
   \<and> get_default (from_records (map items short_mcqs))
        (rows (from_records (map items short_mcqs)) ! 0) ''options'' (JArr [])
       = Some (JArr [JStr ''1'', JStr ''2''])
   \<and> answer_of (from_records (map items short_mcqs)) 0 = Some (JStr ''4'')
   \<and> JStr ''4'' \<notin> set [JStr ''1'', JStr ''2'']"
proof -
  have g: "generate_question_bank terse ''Arithmetic'' ''Beginner'' =
       Inr (Some (from_records (map items short_mcqs)))"
    by (simp add: generate_question_bank_def terse_fields unfence_terse short_mcqs_def)
  have e: "\<not> empty (from_records (map items short_mcqs))"
    by (simp add: short_frame empty_def)
  have c: "generate_click terse ''Arithmetic'' fresh =
      \<lparr>outcome = Rerun, page = [Write ''Generating MCQs... Please wait.''],
       state = fresh\<lparr>mcq_df := Some (from_records (map items short_mcqs)), current_index := 0,
                      saved_answers := Map.empty\<rparr>\<rparr>"
    using g e by (simp add: generate_click_def truthy_def fresh_def Let_def)
  show ?thesis
    unfolding c by (simp add: short_frame len_def get_default_def answer_of_def)
qed

text \<open>
  C3, amended. A run of the generate handler that does not install a bank leaves the
  session state as it was, and a run that installs one installs a frame that is not empty,
  at position 0 and with no saved answer. A reply that is not JSON, and a reply that
  parses to an empty result, end in the error message on the page. An exception of the
  model call is not caught: it leaves \<^const>\<open>generate_question_bank\<close> and the handler,
  with the session state unchanged.
\<close>
theorem failed_generation_keeps_state:
  "(outcome (generate_click w topic st) \<noteq> Rerun \<longrightarrow> state (generate_click w topic st) = st)
   \<and> (outcome (generate_click w topic st) = Rerun \<longrightarrow>
        (\<exists>df. \<not> empty df \<and> state (generate_click w topic st) =
           st\<lparr>mcq_df := Some df, current_index := 0, saved_answers := Map.empty\<rparr>))
   \<and> (topic \<noteq> [] \<longrightarrow> level \<noteq> [] \<longrightarrow> selected_level st = Some level \<longrightarrow>
        generate_content w topic level = Inr text \<longrightarrow>
        json_loads w (unfence text) = None \<or> json_loads w (unfence text) = Some (JArr [])
          \<or> json_loads w (unfence text) = Some JNull \<longrightarrow>
        generate_click w topic st =
          \<lparr>outcome = Done,
           page = [Write ''Generating MCQs... Please wait.'',
                   Failure ''Error generating MCQs. Please try again.''],
           state = st\<rparr>)
   \<and> (topic \<noteq> [] \<longrightarrow> level \<noteq> [] \<longrightarrow> selected_level st = Some level \<longrightarrow>
        generate_content w topic level = Inl e \<longrightarrow>
        generate_click w topic st =
          \<lparr>outcome = Raised e, page = [Write ''Generating MCQs... Please wait.''],
           state = st\<rparr>)"
proof -
  have a: "outcome (generate_click w topic st) \<noteq> Rerun \<longrightarrow> state (generate_click w topic st) = st"
    and b: "outcome (generate_click w topic st) = Rerun \<longrightarrow>
        (\<exists>df. \<not> empty df \<and> state (generate_click w topic st) =
           st\<lparr>mcq_df := Some df, current_index := 0, saved_answers := Map.empty\<rparr>)"
    using generate_click_state [of w topic st] by auto
  show ?thesis
    using a b
    by (auto simp: generate_click_def generate_question_bank_def truthy_def Let_def empty_def)
qed

theorem failed_generation_keeps_state_witness:
  "selected_level answered = Some ''Beginner''
   \<and> generate_content garbled ''Arithmetic'' ''Beginner'' = Inr ''Here are your questions:''
   \<and> json_loads garbled (unfence ''Here are your questions:'') = None
   \<and> generate_click garbled ''Arithmetic'' answered =
       \<lparr>outcome = Done,
        page = [Write ''Generating MCQs... Please wait.'',
                Failure ''Error generating MCQs. Please try again.''],
        state = answered\<rparr>
   \<and> generate_content offline ''Arithmetic'' ''Beginner'' = Inl ModelCallError
   \<and> state (generate_click offline ''Arithmetic'' answered) = answered"
proof -
  have h: "selected_level answered = Some ''Beginner''"
    "generate_content garbled ''Arithmetic'' ''Beginner'' = Inr ''Here are your questions:''"
    "json_loads garbled (unfence ''Here are your questions:'') = None"
    "generate_content offline ''Arithmetic'' ''Beginner'' = Inl ModelCallError"
    by (simp_all add: answered_def loaded_fields garbled_def offline_def)
  from failed_generation_keeps_state
         [of garbled "''Arithmetic''" answered "''Beginner''" "''Here are your questions:''"
             ModelCallError]
       failed_generation_keeps_state
         [of offline "''Arithmetic''" answered "''Beginner''" "''Here are your questions:''"
             ModelCallError] h
  show ?thesis by simp
qed

text \<open>
  C3, as stated, fails when the call of the model raises: the exception leaves the
  handler, and the error message is not put on the page.
\<close>
theorem model_call_failure_is_raised:
  "generate_content offline ''Arithmetic'' ''Beginner'' = Inl ModelCallError
   \<and> generate_question_bank offline ''Arithmetic'' ''Beginner'' = Inl ModelCallError
   \<and> generate_click offline ''Arithmetic'' fresh =
       \<lparr>outcome = Raised ModelCallError, page = [Write ''Generating MCQs... Please wait.''],
        state = fresh\<rparr>
   \<and> Failure ''Error generating MCQs. Please try again.''
       \<notin> set (page (generate_click offline ''Arithmetic'' fresh))"
  by (simp add: generate_click_def generate_question_bank_def offline_def fresh_def truthy_def)

end
